theory Spec2Isabelle
  imports Complex_Main
begin

section \<open>Python values used by \<^verbatim>\<open>container_helper.py\<close>\<close>

text \<open>
  The exceptions the module raises, catches or lets through. \<open>CloudError\<close> carries the
  HTTP status of the failed management call (404 not found, 401/403 authentication,
  409 quota or conflict, 5xx transient); the module itself only looks at the class.
\<close>

datatype exn =
    CloudError nat
  | HandlerSSHTunnelForwarderError
  | CalledProcessError
  | KeyError string
  | TypeError
  | ValueError
  | IndexError
  | KeyboardInterrupt
  | SystemExit int
  | OtherError string

fun is_CloudError :: "exn \<Rightarrow> bool" where
  "is_CloudError (CloudError _) = True"
| "is_CloudError _ = False"

text \<open>
  JSON values as \<^verbatim>\<open>response.json()\<close> returns them and as \<^verbatim>\<open>requests.post(json=...)\<close>
  takes them. A dict is an association list in insertion order; a float is given by
  its rational value.
\<close>

datatype json =
    JNull
  | JBool bool
  | JInt int
  | JFloat rat
  | JString string
  | JList "json list"
  | JDict "(string \<times> json) list"

text \<open>Python truthiness of a parsed JSON value (\<^verbatim>\<open>if value:\<close>).\<close>

fun truthy :: "json \<Rightarrow> bool" where
  "truthy JNull = False"
| "truthy (JBool b) = b"
| "truthy (JInt i) = (i \<noteq> 0)"
| "truthy (JFloat r) = (r \<noteq> 0)"
| "truthy (JString s) = (s \<noteq> [])"
| "truthy (JList xs) = (xs \<noteq> [])"
| "truthy (JDict kvs) = (kvs \<noteq> [])"

text \<open>\<^verbatim>\<open>d[k] = v\<close> on a dict: overwrite in place, or append a new key.\<close>

fun dict_set :: "(string \<times> json) list \<Rightarrow> string \<Rightarrow> json \<Rightarrow> (string \<times> json) list" where
  "dict_set [] k v = [(k, v)]"
| "dict_set ((k', v') # kvs) k v =
     (if k' = k then (k, v) # kvs else (k', v') # dict_set kvs k v)"

text \<open>\<^verbatim>\<open>s.split(sep)\<close> for a one-character separator: never returns the empty list.\<close>

fun split_sep :: "char \<Rightarrow> string \<Rightarrow> string list" where
  "split_sep sep [] = [[]]"
| "split_sep sep (c # cs) =
     (if c = sep then [] # split_sep sep cs
      else (case split_sep sep cs of
              [] \<Rightarrow> [[c]]
            | w # ws \<Rightarrow> (c # w) # ws))"

text \<open>\<^verbatim>\<open>xs[-1]\<close>: the last element, \<open>IndexError\<close> on the empty list.\<close>

definition index_last :: "'a list \<Rightarrow> exn + 'a" where
  "index_last xs = (case xs of [] \<Rightarrow> Inl IndexError | _ # _ \<Rightarrow> Inr (last xs))"

text \<open>\<^verbatim>\<open>'{}'.format(n)\<close> for a non-negative integer: its decimal digits.\<close>

definition digit_char :: "nat \<Rightarrow> char" where
  "digit_char d = ''0123456789'' ! (d mod 10)"

fun str_nat :: "nat \<Rightarrow> string" where
  "str_nat n = (if n < 10 then [digit_char n] else str_nat (n div 10) @ [digit_char n])"

declare str_nat.simps [simp del]

text \<open>\<^verbatim>\<open>sep.join(words)\<close>.\<close>

fun join :: "string \<Rightarrow> string list \<Rightarrow> string" where
  "join sep [] = []"
| "join sep [w] = w"
| "join sep (w # v # ws) = w @ sep @ join sep (v # ws)"

text \<open>\<^verbatim>\<open>posixpath.join(a, b)\<close> for two components.\<close>

definition path_join :: "string \<Rightarrow> string \<Rightarrow> string" where
  "path_join a b =
     (if b \<noteq> [] \<and> hd b = CHR ''/'' then b
      else if a = [] \<or> last a = CHR ''/'' then a @ b
      else a @ ''/'' @ b)"


section \<open>The helper object and the deployment request\<close>

text \<open>
  The fields of a \<^verbatim>\<open>ContainerServiceHelper\<close> that never change after \<^verbatim>\<open>__init__\<close>:
  \<^verbatim>\<open>self.name\<close>, \<^verbatim>\<open>self.docker_tag\<close>, and the name and location of
  \<^verbatim>\<open>self.resources.group\<close>.
\<close>

record helper =
  name :: string
  docker_tag :: string
  group_name :: string
  group_location :: string

text \<open>
  What \<^verbatim>\<open>marathon_deploy_params\<close> reads of a private registry helper:
  \<^verbatim>\<open>storage.default_share\<close> and \<^verbatim>\<open>credentials_file_name\<close>.
\<close>

record registry_helper =
  default_share :: string
  credentials_file_name :: string

text \<open>\<^verbatim>\<open>return self.docker_tag.split('/')[-1]\<close>\<close>

definition deployment_id :: "helper \<Rightarrow> exn + string" where
  "deployment_id h = index_last (split_sep CHR ''/'' (docker_tag h))"

text \<open>
  \<^verbatim>\<open>marathon_deploy_params\<close>: the dict literal, then the \<^verbatim>\<open>uris\<close> key when a registry
  helper is passed (\<open>None\<close> is Python's \<^verbatim>\<open>None\<close>; a helper object is truthy).
\<close>

definition marathon_deploy_params ::
    "helper \<Rightarrow> registry_helper option \<Rightarrow> exn + (string \<times> json) list" where
  "marathon_deploy_params h private_registry_helper =
     (case deployment_id h of
        Inl e \<Rightarrow> Inl e
      | Inr did \<Rightarrow>
          (let params =
             [(''id'', JString did),
              (''container'', JDict
                 [(''type'', JString ''DOCKER''),
                  (''docker'', JDict
                     [(''image'', JString (docker_tag h)),
                      (''network'', JString ''BRIDGE''),
                      (''portMappings'', JList
                         [JDict [(''hostPort'', JInt 80),
                                 (''containerPort'', JInt 80),
                                 (''protocol'', JString ''tcp'')]])])]),
              (''acceptedResourceRoles'', JList [JString ''slave_public'']),
              (''instances'', JInt 1),
              (''cpus'', JFloat (1 / 10)),
              (''mem'', JInt 64)]
           in (case private_registry_helper of
                 None \<Rightarrow> Inr params
               | Some r \<Rightarrow>
                   Inr (dict_set params ''uris''
                          (JList [JString (''file:///mnt/'' @ default_share r @ ''/'' @
                                           credentials_file_name r)])))))"


section \<open>The cluster model objects\<close>

text \<open>
  The \<^verbatim>\<open>azure.mgmt.compute.containerservice.models\<close> classes the module builds and
  reads, with the fields it uses. \<open>fqdn\<close> is filled in by the service and is \<^verbatim>\<open>None\<close>
  in a request. Field names are global here, so the master profile's \<^verbatim>\<open>count\<close> is
  \<open>master_count\<close>, and the agent pool profile's \<^verbatim>\<open>name\<close>, \<^verbatim>\<open>count\<close> and \<^verbatim>\<open>dns_prefix\<close>
  are \<open>pool_name\<close>, \<open>pool_count\<close> and \<open>pool_dns_prefix\<close>.
\<close>

record ContainerServiceMasterProfile =
  dns_prefix :: string
  master_count :: int
  fqdn :: "string option"

record ContainerServiceAgentPoolProfile =
  pool_name :: string
  pool_count :: int
  vm_size :: string
  pool_dns_prefix :: string

record ContainerServiceSshPublicKey =
  key_data :: string

record ContainerServiceSshConfiguration =
  public_keys :: "ContainerServiceSshPublicKey list"

record ContainerServiceLinuxProfile =
  admin_username :: string
  ssh :: ContainerServiceSshConfiguration

record ContainerServiceOrchestratorProfile =
  orchestrator_type :: string

record ContainerService =
  location :: string
  master_profile :: ContainerServiceMasterProfile
  agent_pool_profiles :: "ContainerServiceAgentPoolProfile list"
  linux_profile :: ContainerServiceLinuxProfile
  orchestrator_profile :: ContainerServiceOrchestratorProfile

text \<open>The keyword arguments \<^verbatim>\<open>ssh_tunnel_args\<close> builds for \<^verbatim>\<open>SSHTunnelForwarder\<close>.\<close>

record tunnel_args =
  ssh_address_or_host :: "string option \<times> nat"
  ssh_username :: string
  remote_bind_address :: "string \<times> nat"
  local_bind_address :: "string \<times> nat"
  ssh_pkey :: string

text \<open>
  An HTTP response of \<^verbatim>\<open>requests\<close>: its status code, and what \<^verbatim>\<open>response.json()\<close>
  does (the parsed body, or the exception for a body that is not JSON).
\<close>

record response =
  status_code :: nat
  json_body :: "exn + json"


section \<open>Effects: the trace of external calls and the outside world\<close>

text \<open>An argument of \<^verbatim>\<open>print\<close>: a string, or a parsed JSON value printed as it is.\<close>

datatype printed = PStr string | PJson json

text \<open>
  Every call that leaves the module, in program order. \<open>CreateOrUpdate\<close> is the one
  mutating call to the cloud management API; \<open>PollerResult\<close> is the blocking
  \<^verbatim>\<open>.result()\<close> on the poller it returns.
\<close>

datatype event =
    is_Haikunate: Haikunate
  | is_ContainerGet: ContainerGet string string
  | is_ReadFile: ReadFile string
  | is_CreateOrUpdate: CreateOrUpdate string string ContainerService
  | is_PollerResult: PollerResult
  | is_TunnelStart: TunnelStart tunnel_args
  | is_TunnelStop: TunnelStop
  | is_Post: Post string json
  | is_Get: Get string
  | is_Sleep: Sleep nat
  | is_Print: Print "printed list"
  | is_PrintExc: PrintExc
  | is_Popen: Popen "string list"
  | is_Terminate: Terminate nat

text \<open>
  The mutable part of a helper, \<^verbatim>\<open>self._container_service\<close> (\<open>None\<close> after
  \<^verbatim>\<open>__init__\<close>), together with the trace of calls made so far.
\<close>

record state =
  cached :: "ContainerService option"
  trace :: "event list"

definition emit :: "event list \<Rightarrow> state \<Rightarrow> state" where
  "emit evs s = s\<lparr>trace := trace s @ evs\<rparr>"

definition count_ev :: "(event \<Rightarrow> bool) \<Rightarrow> state \<Rightarrow> nat" where
  "count_ev p s = length (filter p (trace s))"

text \<open>
  The outside world: what each external call answers. A call that can be repeated
  takes the number of earlier calls of its kind, so that the answers may change from
  one call to the next; \<open>Inl\<close> is the exception the call raises.
  \<^verbatim>\<open>create_or_update\<close> either raises or returns a poller, whose \<^verbatim>\<open>.result()\<close> either
  raises or returns the created service. \<open>tunnel_start\<close> is the construction and
  \<^verbatim>\<open>__enter__\<close> of the forwarder and returns the bound local address.
\<close>

record world =
  haikunate :: "nat \<Rightarrow> string"
  container_services_get :: "nat \<Rightarrow> string \<Rightarrow> string \<Rightarrow> exn + ContainerService"
  container_services_create_or_update ::
    "nat \<Rightarrow> string \<Rightarrow> string \<Rightarrow> ContainerService \<Rightarrow> exn + (exn + ContainerService)"
  environ_HOME :: "string option"
  read_file :: "nat \<Rightarrow> string \<Rightarrow> exn + string"
  tunnel_start :: "nat \<Rightarrow> tunnel_args \<Rightarrow> exn + (string \<times> nat)"
  requests_post :: "nat \<Rightarrow> string \<Rightarrow> json \<Rightarrow> exn + response"
  requests_get :: "nat \<Rightarrow> string \<Rightarrow> exn + response"
  time_sleep :: "nat \<Rightarrow> nat \<Rightarrow> exn option"
  subprocess_Popen :: "nat \<Rightarrow> string list \<Rightarrow> exn + nat"


section \<open>Provisioning: the \<^verbatim>\<open>container_service\<close> property\<close>

text \<open>\<^verbatim>\<open>os.path.join(os.environ['HOME'], '.ssh', 'id_rsa')\<close>\<close>

definition get_key_path :: "world \<Rightarrow> exn + string" where
  "get_key_path w =
     (case environ_HOME w of
        None \<Rightarrow> Inl (KeyError ''HOME'')
      | Some home \<Rightarrow> Inr (path_join (path_join home ''.ssh'') ''id_rsa''))"

text \<open>\<^verbatim>\<open>_get_ssh_config()\<close>, called without a key path: reads \<^verbatim>\<open>get_key_path() + '.pub'\<close>.\<close>

definition get_ssh_config ::
    "world \<Rightarrow> state \<Rightarrow> (exn + ContainerServiceSshConfiguration) \<times> state" where
  "get_ssh_config w s =
     (case get_key_path w of
        Inl e \<Rightarrow> (Inl e, s)
      | Inr p \<Rightarrow>
          (let key_path = p @ ''.pub'';
               s1 = emit [ReadFile key_path] s
           in case read_file w (count_ev is_ReadFile s) key_path of
                Inl e \<Rightarrow> (Inl e, s1)
              | Inr content \<Rightarrow> (Inr \<lparr>public_keys = [\<lparr>key_data = content\<rparr>]\<rparr>, s1)))"

text \<open>The \<^verbatim>\<open>ContainerService(...)\<close> model built in the \<^verbatim>\<open>except CloudError\<close> branch.\<close>

definition creation_request ::
    "helper \<Rightarrow> string \<Rightarrow> ContainerServiceSshConfiguration \<Rightarrow> ContainerService" where
  "creation_request h prefix ssh_config =
     \<lparr>location = group_location h,
      master_profile = \<lparr>dns_prefix = prefix, master_count = 1, fqdn = None\<rparr>,
      agent_pool_profiles =
        [\<lparr>pool_name = name h, pool_count = 1, vm_size = ''Standard_D1_v2'',
          pool_dns_prefix = prefix @ ''-agent''\<rparr>],
      linux_profile = \<lparr>admin_username = name h, ssh = ssh_config\<rparr>,
      orchestrator_profile = \<lparr>orchestrator_type = ''DCOS''\<rparr>\<rparr>"

text \<open>
  The property itself. A name is generated on every access; the lookup and the
  creation run only while nothing is cached; only a value that was returned is cached.
  \<^verbatim>\<open>except CloudError\<close> catches every \<open>CloudError\<close>, whatever its status, and nothing
  else.
\<close>

definition container_service ::
    "world \<Rightarrow> helper \<Rightarrow> state \<Rightarrow> (exn + ContainerService) \<times> state" where
  "container_service w h s =
     (let prefix = haikunate w (count_ev is_Haikunate s);
          s0 = emit [Haikunate] s
      in case cached s0 of
           Some c \<Rightarrow> (Inr c, s0)
         | None \<Rightarrow>
             (let s1 = emit [ContainerGet (group_name h) (name h)] s0
              in case container_services_get w (count_ev is_ContainerGet s0)
                        (group_name h) (name h) of
                   Inr c \<Rightarrow> (Inr c, s1\<lparr>cached := Some c\<rparr>)
                 | Inl e \<Rightarrow>
                     if is_CloudError e then
                       (case get_ssh_config w s1 of
                          (Inl e', s2) \<Rightarrow> (Inl e', s2)
                        | (Inr ssh_config, s2) \<Rightarrow>
                            (let request = creation_request h prefix ssh_config;
                                 s3 = emit [CreateOrUpdate (group_name h) (name h) request] s2
                             in case container_services_create_or_update w
                                       (count_ev is_CreateOrUpdate s2)
                                       (group_name h) (name h) request of
                                  Inl e' \<Rightarrow> (Inl e', s3)
                                | Inr poller \<Rightarrow>
                                    (let s4 = emit [PollerResult] s3
                                     in case poller of
                                          Inl e' \<Rightarrow> (Inl e', s4)
                                        | Inr c \<Rightarrow> (Inr c, s4\<lparr>cached := Some c\<rparr>))))
                     else (Inl e, s1)))"

text \<open>\<^verbatim>\<open>self.container_service.master_profile.dns_prefix\<close>\<close>

definition helper_dns_prefix :: "world \<Rightarrow> helper \<Rightarrow> state \<Rightarrow> (exn + string) \<times> state" where
  "helper_dns_prefix w h s =
     (case container_service w h s of
        (Inl e, s1) \<Rightarrow> (Inl e, s1)
      | (Inr c, s1) \<Rightarrow> (Inr (dns_prefix (master_profile c)), s1))"

text \<open>\<^verbatim>\<open>self.container_service.master_profile.fqdn\<close>\<close>

definition master_ssh_address ::
    "world \<Rightarrow> helper \<Rightarrow> state \<Rightarrow> (exn + string option) \<times> state" where
  "master_ssh_address w h s =
     (case container_service w h s of
        (Inl e, s1) \<Rightarrow> (Inl e, s1)
      | (Inr c, s1) \<Rightarrow> (Inr (fqdn (master_profile c)), s1))"

text \<open>How \<^verbatim>\<open>str.format\<close> renders a value that is a string or \<^verbatim>\<open>None\<close>.\<close>

definition format_opt :: "string option \<Rightarrow> string" where
  "format_opt v = (case v of None \<Rightarrow> ''None'' | Some x \<Rightarrow> x)"

text \<open>\<^verbatim>\<open>master_ssh_login\<close>: the name, an at sign and the master address, by \<^verbatim>\<open>str.format\<close>.\<close>

definition master_ssh_login :: "world \<Rightarrow> helper \<Rightarrow> state \<Rightarrow> (exn + string) \<times> state" where
  "master_ssh_login w h s =
     (case master_ssh_address w h s of
        (Inl e, s1) \<Rightarrow> (Inl e, s1)
      | (Inr a, s1) \<Rightarrow> (Inr (name h @ ''@'' @ format_opt a), s1))"

text \<open>\<^verbatim>\<open>ssh_tunnel_args\<close>: the master address first, the key path last.\<close>

definition ssh_tunnel_args ::
    "world \<Rightarrow> helper \<Rightarrow> string \<Rightarrow> string \<Rightarrow> nat \<Rightarrow> nat \<Rightarrow> state \<Rightarrow>
     (exn + tunnel_args) \<times> state" where
  "ssh_tunnel_args w h remote_host local_host remote_port local_port s =
     (case master_ssh_address w h s of
        (Inl e, s1) \<Rightarrow> (Inl e, s1)
      | (Inr a, s1) \<Rightarrow>
          (case get_key_path w of
             Inl e \<Rightarrow> (Inl e, s1)
           | Inr p \<Rightarrow>
               (Inr \<lparr>ssh_address_or_host = (a, 2200),
                     ssh_username = name h,
                     remote_bind_address = (remote_host, remote_port),
                     local_bind_address = (local_host, local_port),
                     ssh_pkey = p\<rparr>, s1)))"


section \<open>The interactive shell: \<^verbatim>\<open>cluster_ssh\<close>\<close>

text \<open>
  \<^verbatim>\<open>cluster_ssh\<close> is a generator under \<^verbatim>\<open>@contextmanager\<close>, used as
  \<^verbatim>\<open>with helper.cluster_ssh() as proc: body\<close>. The code before \<^verbatim>\<open>yield\<close> runs on entry.
  When the body returns, the generator is resumed and runs \<^verbatim>\<open>proc.terminate()\<close>. When
  the body raises, the exception is thrown into the generator at the \<^verbatim>\<open>yield\<close>, which
  stands outside the \<^verbatim>\<open>try\<close>: it leaves the generator at once and the \<^verbatim>\<open>with\<close>
  statement re-raises it. The body is the caller's code: it gets the process handle and
  the state and returns a value or an exception.
\<close>

definition cluster_ssh_open :: "world \<Rightarrow> helper \<Rightarrow> state \<Rightarrow> (exn + nat) \<times> state" where
  "cluster_ssh_open w h s =
     (case get_key_path w of
        Inl e \<Rightarrow> (Inl e, s)
      | Inr p \<Rightarrow>
          (case master_ssh_login w h s of
             (Inl e, s1) \<Rightarrow> (Inl e, s1)
           | (Inr login, s1) \<Rightarrow>
               (let cmd = [''ssh'', ''-i'', p, login];
                    s2 = emit [Print [PStr ''Connecting to cluster:'', PStr (join '' '' cmd)],
                               Popen cmd] s1
                in case subprocess_Popen w (count_ev is_Popen s1) cmd of
                     Inl e \<Rightarrow> (Inl e, s2)
                   | Inr proc \<Rightarrow> (Inr proc, s2))))"

definition cluster_ssh ::
    "world \<Rightarrow> helper \<Rightarrow> (nat \<Rightarrow> state \<Rightarrow> (exn + 'a) \<times> state) \<Rightarrow> state \<Rightarrow> (exn + 'a) \<times> state" where
  "cluster_ssh w h body s =
     (case cluster_ssh_open w h s of
        (Inl e, s1) \<Rightarrow>
          if e = CalledProcessError then
            (case master_ssh_login w h s1 of
               (Inl e', s2) \<Rightarrow> (Inl e', s2)
             | (Inr login, s2) \<Rightarrow>
                 (Inl e,
                  emit [Print [PStr (''Your SSH connection to the cluster was unsuccessful. '' @
                                     ''Try `ssh '' @ login @ ''` to confirm that you can do so '' @
                                     ''without any prompts.'')]] s2))
          else (Inl e, s1)
      | (Inr proc, s1) \<Rightarrow>
          (case body proc s1 of
             (Inl e, s2) \<Rightarrow> (Inl e, s2)
           | (Inr v, s2) \<Rightarrow> (Inr v, emit [Terminate proc] s2)))"


section \<open>Deployment: \<^verbatim>\<open>deploy_container\<close>\<close>

text \<open>\<^verbatim>\<open>key in content\<close> and \<^verbatim>\<open>content[key]\<close> for a string key and a parsed JSON value.\<close>

fun starts_with :: "string \<Rightarrow> string \<Rightarrow> bool" where
  "starts_with [] t = True"
| "starts_with (a # s) [] = False"
| "starts_with (a # s) (b # t) = (a = b \<and> starts_with s t)"

fun contains_str :: "string \<Rightarrow> string \<Rightarrow> bool" where
  "contains_str s [] = (s = [])"
| "contains_str s (c # t) = (starts_with s (c # t) \<or> contains_str s t)"

definition py_in :: "string \<Rightarrow> json \<Rightarrow> exn + bool" where
  "py_in k content =
     (case content of
        JDict kvs \<Rightarrow> Inr (k \<in> set (map fst kvs))
      | JList xs \<Rightarrow> Inr (JString k \<in> set xs)
      | JString t \<Rightarrow> Inr (contains_str k t)
      | _ \<Rightarrow> Inl TypeError)"

definition py_getitem :: "json \<Rightarrow> string \<Rightarrow> exn + json" where
  "py_getitem content k =
     (case content of
        JDict kvs \<Rightarrow> (case map_of kvs k of None \<Rightarrow> Inl (KeyError k) | Some v \<Rightarrow> Inr v)
      | _ \<Rightarrow> Inl TypeError)"

text \<open>
  The \<^verbatim>\<open>while True\<close> loop. It has no bound: when the orchestrator never answers with
  a false value it does not return, which is the value \<open>None\<close> here.
\<close>

partial_function (option) poll ::
    "world \<Rightarrow> string \<Rightarrow> state \<Rightarrow> ((exn + unit) \<times> state) option" where
  "poll w base_url s =
     (let s1 = emit [Print [PStr ''Making sure deployment finishes.''],
                     Print [PStr ''Initial simple-docker deploy should take about 30 seconds.'']] s;
          s2 = emit [Get (base_url @ ''deployments'')] s1
      in case requests_get w (count_ev is_Get s1) (base_url @ ''deployments'') of
           Inl e \<Rightarrow> Some (Inl e, s2)
         | Inr response \<Rightarrow>
             (case json_body response of
                Inl e \<Rightarrow> Some (Inl e, s2)
              | Inr v \<Rightarrow>
                  if truthy v then
                    (let s3 = emit [Print [PStr ''Waiting for deployment to finish...''],
                                    Sleep 5] s2
                     in case time_sleep w (count_ev is_Sleep s2) 5 of
                          Some e \<Rightarrow> Some (Inl e, s3)
                        | None \<Rightarrow> poll w base_url s3)
                  else Some (Inr (), s2)))"

declare poll.simps [code]

text \<open>The body of the \<^verbatim>\<open>with SSHTunnelForwarder(...) as tunnel\<close> block.\<close>

definition deploy_body ::
    "world \<Rightarrow> helper \<Rightarrow> registry_helper option \<Rightarrow> string \<times> nat \<Rightarrow> state \<Rightarrow>
     ((exn + unit) \<times> state) option" where
  "deploy_body w h private_registry_helper bound s =
     (let base_url = ''http://'' @ fst bound @ '':'' @ str_nat (snd bound) @ ''/marathon/v2/'';
          s1 = emit [Print [PStr (''Attempting to deploy Docker image '' @ docker_tag h)]] s
      in case marathon_deploy_params h private_registry_helper of
           Inl e \<Rightarrow> Some (Inl e, s1)
         | Inr params \<Rightarrow>
             (let s2 = emit [Post (base_url @ ''apps'') (JDict params)] s1
              in case requests_post w (count_ev is_Post s1) (base_url @ ''apps'') (JDict params) of
                   Inl e \<Rightarrow> Some (Inl e, s2)
                 | Inr response \<Rightarrow>
                     (case json_body response of
                        Inl e \<Rightarrow> Some (Inl e, s2)
                      | Inr content \<Rightarrow>
                          (let s3 = emit [Print [PStr ''Deployment request successful.'']] s2
                           in case py_in ''deployments'' content of
                                Inl e \<Rightarrow> Some (Inl e, s3)
                              | Inr True \<Rightarrow>
                                  (case py_getitem content ''deployments'' of
                                     Inl e \<Rightarrow> Some (Inl e, s3)
                                   | Inr d \<Rightarrow>
                                       poll w base_url
                                         (emit [Print [PStr ''Deployments: '', PJson d]] s3))
                              | Inr False \<Rightarrow>
                                  poll w base_url (emit [Print [PJson content]] s3)))))"

text \<open>
  The \<^verbatim>\<open>except HandlerSSHTunnelForwarderError\<close> clause around the whole block: any other
  exception passes through; this one prints the advice and ends in \<^verbatim>\<open>sys.exit(1)\<close>.
\<close>

definition tunnel_error_handler ::
    "world \<Rightarrow> helper \<Rightarrow> string \<Rightarrow> nat \<Rightarrow> nat \<Rightarrow> exn \<Rightarrow> state \<Rightarrow> (exn + unit) \<times> state" where
  "tunnel_error_handler w h tunnel_host tunnel_remote_port tunnel_local_port e s =
     (if e = HandlerSSHTunnelForwarderError then
        (let s1 = emit [PrintExc,
                        Print [PStr ''Opening SSH tunnel failed.''],
                        Print [PStr ''Please try the following command in a terminal:'']] s
         in case master_ssh_address w h s1 of
              (Inl e', s2) \<Rightarrow> (Inl e', s2)
            | (Inr addr, s2) \<Rightarrow>
                (Inl (SystemExit 1),
                 emit [Print [PStr (''ssh -N -L '' @ tunnel_host @ '':'' @ str_nat tunnel_local_port @
                                    '':'' @ tunnel_host @ '':'' @ str_nat tunnel_remote_port @
                                    '' '' @ format_opt addr)]] s2))
      else (Inl e, s))"

text \<open>
  \<^verbatim>\<open>deploy_container\<close>. The \<^verbatim>\<open>with\<close> statement calls the forwarder's \<^verbatim>\<open>__exit__\<close>
  (\<open>TunnelStop\<close>) when the body is left, by return or by exception, and not when
  entering failed.
\<close>

definition deploy_container ::
    "world \<Rightarrow> helper \<Rightarrow> registry_helper option \<Rightarrow> state \<Rightarrow> ((exn + unit) \<times> state) option" where
  "deploy_container w h private_registry_helper s =
     (let tunnel_remote_port = 80;
          tunnel_local_port = 8001;
          tunnel_host = ''127.0.0.1'';
          handler = tunnel_error_handler w h tunnel_host tunnel_remote_port tunnel_local_port
      in case ssh_tunnel_args w h tunnel_host tunnel_host tunnel_remote_port tunnel_local_port s of
           (Inl e, s1) \<Rightarrow> Some (handler e s1)
         | (Inr args, s1) \<Rightarrow>
             (let s2 = emit [TunnelStart args] s1
              in case tunnel_start w (count_ev is_TunnelStart s1) args of
                   Inl e \<Rightarrow> Some (handler e s2)
                 | Inr bound \<Rightarrow>
                     (case deploy_body w h private_registry_helper bound s2 of
                        None \<Rightarrow> None
                      | Some (r, s3) \<Rightarrow>
                          (let s4 = emit [TunnelStop] s3
                           in case r of
                                Inl e \<Rightarrow> Some (handler e s4)
                              | Inr u \<Rightarrow> Some (Inr u, s4)))))"


section \<open>A sample run\<close>

text \<open>
  A helper for the cluster \<open>acs\<close> in resource group \<open>rg\<close>, in the state \<^verbatim>\<open>__init__\<close>
  leaves it in, and a world in which the cluster does not exist yet: the lookup answers
  404, the creation succeeds, the tunnel opens, the orchestrator accepts the
  application and reports a pending deployment twice before it reports none.
\<close>

definition sample_helper :: helper where
  "sample_helper =
     \<lparr>name = ''acs'', docker_tag = ''registry.example.com/myorg/myapp'',
      group_name = ''rg'', group_location = ''westus''\<rparr>"

definition initial_state :: state where
  "initial_state = \<lparr>cached = None, trace = []\<rparr>"

definition fresh_world :: world where
  "fresh_world =
     \<lparr>haikunate = (\<lambda>i. ''red-frog''),
      container_services_get = (\<lambda>i g n. Inl (CloudError 404)),
      container_services_create_or_update =
        (\<lambda>i g n request.
           Inr (Inr (request\<lparr>master_profile :=
                       (master_profile request)\<lparr>fqdn := Some ''master.example.com''\<rparr>\<rparr>))),
      environ_HOME = Some ''/home/op'',
      read_file = (\<lambda>i p. Inr ''ssh-rsa AAAA''),
      tunnel_start = (\<lambda>i args. Inr (local_bind_address args)),
      requests_post =
        (\<lambda>i url body.
           Inr \<lparr>status_code = 201,
                json_body = Inr (JDict [(''id'', JString ''/myapp''),
                                        (''deployments'', JList [JDict [(''id'', JString ''d1'')]])])\<rparr>),
      requests_get =
        (\<lambda>i url.
           Inr \<lparr>status_code = 200,
                json_body = Inr (JList (if i < 2 then [JDict [(''id'', JString ''d1'')]] else []))\<rparr>),
      time_sleep = (\<lambda>i seconds. None),
      subprocess_Popen = (\<lambda>i cmd. Inr 4242)\<rparr>"


definition sample_request :: ContainerService where
  "sample_request =
     \<lparr>location = ''westus'',
      master_profile = \<lparr>dns_prefix = ''red-frog'', master_count = 1, fqdn = None\<rparr>,
      agent_pool_profiles =
        [\<lparr>pool_name = ''acs'', pool_count = 1, vm_size = ''Standard_D1_v2'',
          pool_dns_prefix = ''red-frog-agent''\<rparr>],
      linux_profile =
        \<lparr>admin_username = ''acs'',
         ssh = \<lparr>public_keys = [\<lparr>key_data = ''ssh-rsa AAAA''\<rparr>]\<rparr>\<rparr>,
      orchestrator_profile = \<lparr>orchestrator_type = ''DCOS''\<rparr>\<rparr>"

definition sample_service :: ContainerService where
  "sample_service =
     sample_request\<lparr>master_profile :=
       \<lparr>dns_prefix = ''red-frog'', master_count = 1, fqdn = Some ''master.example.com''\<rparr>\<rparr>"

definition provisioned_state :: state where
  "provisioned_state =
     \<lparr>cached = Some sample_service,
      trace = [Haikunate, ContainerGet ''rg'' ''acs'', ReadFile ''/home/op/.ssh/id_rsa.pub'',
               CreateOrUpdate ''rg'' ''acs'' sample_request, PollerResult]\<rparr>"

text \<open>A world in which the cluster does not exist and every creation is refused.\<close>

definition refusing_world :: world where
  "refusing_world =
     fresh_world\<lparr>container_services_create_or_update := (\<lambda>i g n request. Inl (CloudError 409))\<rparr>"

text \<open>A world in which the lookup is refused for lack of authorisation.\<close>

definition forbidden_lookup_world :: world where
  "forbidden_lookup_world =
     fresh_world\<lparr>container_services_get := (\<lambda>i g n. Inl (CloudError 403))\<rparr>"

text \<open>A world in which the lookup fails below the management API, with no \<open>CloudError\<close>.\<close>

definition timeout_world :: world where
  "timeout_world =
     fresh_world\<lparr>container_services_get := (\<lambda>i g n. Inl (OtherError ''timeout''))\<rparr>"

text \<open>The arguments \<^verbatim>\<open>deploy_container\<close> builds for the tunnel of the sample cluster.\<close>

definition sample_tunnel_args :: tunnel_args where
  "sample_tunnel_args =
     \<lparr>ssh_address_or_host = (Some ''master.example.com'', 2200),
      ssh_username = ''acs'',
      remote_bind_address = (''127.0.0.1'', 80),
      local_bind_address = (''127.0.0.1'', 8001),
      ssh_pkey = ''/home/op/.ssh/id_rsa''\<rparr>"

text \<open>A world in which the operator interrupts the first sleep of the polling loop.\<close>

definition interrupted_world :: world where
  "interrupted_world = fresh_world\<lparr>time_sleep := (\<lambda>i seconds. Some KeyboardInterrupt)\<rparr>"

text \<open>
  A world in which the orchestrator rejects the application with status 422 and a JSON
  error message.
\<close>

definition rejecting_world :: world where
  "rejecting_world =
     fresh_world\<lparr>requests_post :=
       (\<lambda>i url body.
          Inr \<lparr>status_code = 422,
               json_body = Inr (JDict [(''message'', JString ''Object is not valid'')])\<rparr>)\<rparr>"

text \<open>A world in which the \<^verbatim>\<open>POST\<close> fails in the transport.\<close>

definition unreachable_world :: world where
  "unreachable_world =
     fresh_world\<lparr>requests_post := (\<lambda>i url body. Inl (OtherError ''ConnectionError''))\<rparr>"

text \<open>A world in which the answer to the \<^verbatim>\<open>POST\<close> is not JSON.\<close>

definition garbled_world :: world where
  "garbled_world =
     fresh_world\<lparr>requests_post :=
       (\<lambda>i url body. Inr \<lparr>status_code = 502, json_body = Inl ValueError\<rparr>)\<rparr>"

text \<open>A world in which the tunnel cannot be opened.\<close>

definition refused_tunnel_world :: world where
  "refused_tunnel_world =
     fresh_world\<lparr>tunnel_start := (\<lambda>i args. Inl HandlerSSHTunnelForwarderError)\<rparr>"


section \<open>The deployment id\<close>

lemma split_sep_not_Nil: "split_sep sep s \<noteq> []"
  by (induction s) (auto split: list.splits)

lemma split_sep_no_sep: "sep \<notin> set s \<Longrightarrow> split_sep sep s = [s]"
  by (induction s) auto

lemma split_sep_append:
  "split_sep sep (pre @ sep # suf) = split_sep sep pre @ split_sep sep suf"
proof (induction pre)
  case Nil
  show ?case by simp
next
  case (Cons c pre)
  obtain w ws where ws: "split_sep sep pre = w # ws"
    using split_sep_not_Nil [of sep pre] by (cases "split_sep sep pre") auto
  with Cons show ?case by simp
qed

lemma last_split_sep_append:
  "last (split_sep sep (pre @ sep # suf)) = last (split_sep sep suf)"
  by (simp add: split_sep_append split_sep_not_Nil)

lemma deployment_id_total: "\<exists>did. deployment_id h = Inr did"
  using split_sep_not_Nil [of "CHR ''/''" "docker_tag h"]
  by (cases "split_sep CHR ''/'' (docker_tag h)") (auto simp: deployment_id_def index_last_def)

lemma deployment_id_last:
  "deployment_id h = Inr (last (split_sep CHR ''/'' (docker_tag h)))"
  using split_sep_not_Nil [of "CHR ''/''" "docker_tag h"]
  by (cases "split_sep CHR ''/'' (docker_tag h)") (auto simp: deployment_id_def index_last_def)

lemma last_split_sep_closed:
  "last (split_sep sep s) = rev (takeWhile (\<lambda>c. c \<noteq> sep) (rev s))"
proof (cases "sep \<in> set s")
  case False
  then have tw: "takeWhile (\<lambda>c. c \<noteq> sep) (rev s) = rev s"
    by auto
  have "last (split_sep sep s) = s"
    using False by (simp add: split_sep_no_sep)
  then show ?thesis unfolding tw by simp
next
  case True
  then obtain ys zs where s: "s = ys @ sep # zs" and zs: "sep \<notin> set zs"
    by (auto dest: split_list_last)
  have "takeWhile (\<lambda>c. c \<noteq> sep) (rev zs @ sep # rev ys) = rev zs"
    using zs by (subst takeWhile_append2) auto
  then have "rev (takeWhile (\<lambda>c. c \<noteq> sep) (rev s)) = zs"
    by (simp add: s)
  moreover have "last (split_sep sep s) = zs"
    using zs by (simp add: s last_split_sep_append split_sep_no_sep)
  ultimately show ?thesis by simp
qed

lemma marathon_deploy_params_id:
  assumes "deployment_id h = Inr did"
  shows "\<exists>params. marathon_deploy_params h reg = Inr params \<and>
                  map_of params ''id'' = Some (JString did)"
  using assms by (cases reg) (simp_all add: marathon_deploy_params_def)

text \<open>
  Claim C8. The \<open>id\<close> of the deployment request, with or without a registry helper, is
  the part of the image reference after its final \<open>/\<close>: for a reference \<open>pre / suf\<close>
  with no \<open>/\<close> in \<open>suf\<close> it is \<open>suf\<close>, and for a reference without any \<open>/\<close> it is the
  whole reference. In closed form it is the longest suffix of the reference that has
  no \<open>/\<close>. The request is always built, never an exception, and its \<open>id\<close> is what
  \<^verbatim>\<open>deployment_id\<close> returns.
\<close>

theorem deployment_id_final_segment:
  "(CHR ''/'' \<notin> set suf \<longrightarrow> docker_tag h = pre @ ''/'' @ suf \<longrightarrow> deployment_id h = Inr suf) \<and>
   (CHR ''/'' \<notin> set (docker_tag h) \<longrightarrow> deployment_id h = Inr (docker_tag h)) \<and>
   deployment_id h = Inr (rev (takeWhile (\<lambda>c. c \<noteq> CHR ''/'') (rev (docker_tag h)))) \<and>
   (CHR ''/'' \<notin> set suf \<longrightarrow> docker_tag h = pre @ ''/'' @ suf \<longrightarrow>
      (\<forall>reg. \<exists>params. marathon_deploy_params h reg = Inr params \<and>
                       map_of params ''id'' = Some (JString suf))) \<and>
   (CHR ''/'' \<notin> set (docker_tag h) \<longrightarrow>
      (\<forall>reg. \<exists>params. marathon_deploy_params h reg = Inr params \<and>
                       map_of params ''id'' = Some (JString (docker_tag h)))) \<and>
   (\<forall>reg. \<exists>params.
      marathon_deploy_params h reg = Inr params \<and>
      map_of params ''id'' =
        Some (JString (rev (takeWhile (\<lambda>c. c \<noteq> CHR ''/'') (rev (docker_tag h))))))"
proof -
  note last_eq = deployment_id_last [of h]
  have a: "deployment_id h = Inr suf"
    if "CHR ''/'' \<notin> set suf" "docker_tag h = pre @ ''/'' @ suf"
    using that by (simp add: last_eq last_split_sep_append split_sep_no_sep)
  have b: "deployment_id h = Inr (docker_tag h)" if "CHR ''/'' \<notin> set (docker_tag h)"
    using that by (simp add: last_eq split_sep_no_sep)
  have c: "deployment_id h = Inr (rev (takeWhile (\<lambda>c. c \<noteq> CHR ''/'') (rev (docker_tag h))))"
    by (simp add: last_eq last_split_sep_closed)
  have request: "\<forall>reg. \<exists>params. marathon_deploy_params h reg = Inr params \<and>
                                 map_of params ''id'' = Some (JString did)"
    if "deployment_id h = Inr did" for did
    using marathon_deploy_params_id [OF that] by blast
  show ?thesis
    using a b c request [OF c] request [OF a] request [OF b] by blast
qed

theorem deployment_id_final_segment_witness:
  "deployment_id \<lparr>name = ''acs'', docker_tag = ''registry.example.com/myorg/myapp'',
                  group_name = ''rg'', group_location = ''westus''\<rparr> = Inr ''myapp'' \<and>
   deployment_id \<lparr>name = ''acs'', docker_tag = ''nginx'',
                  group_name = ''rg'', group_location = ''westus''\<rparr> = Inr ''nginx'' \<and>
   deployment_id \<lparr>name = ''acs'', docker_tag = ''registry.example.com/myorg/myapp'',
                  group_name = ''rg'', group_location = ''westus''\<rparr> =
     Inr (rev (takeWhile (\<lambda>c. c \<noteq> CHR ''/'')
                (rev ''registry.example.com/myorg/myapp''))) \<and>
   (\<exists>params.
      marathon_deploy_params
        \<lparr>name = ''acs'', docker_tag = ''registry.example.com/myorg/myapp'',
         group_name = ''rg'', group_location = ''westus''\<rparr> None = Inr params \<and>
      map_of params ''id'' = Some (JString ''myapp'')) \<and>
   (\<exists>params.
      marathon_deploy_params
        \<lparr>name = ''acs'', docker_tag = ''nginx'',
         group_name = ''rg'', group_location = ''westus''\<rparr>
        (Some \<lparr>default_share = ''data'', credentials_file_name = ''creds.json''\<rparr>) =
        Inr params \<and>
      map_of params ''id'' = Some (JString ''nginx''))"
proof -
  let ?h = "\<lparr>name = ''acs'', docker_tag = ''registry.example.com/myorg/myapp'',
             group_name = ''rg'', group_location = ''westus''\<rparr>"
  let ?g = "\<lparr>name = ''acs'', docker_tag = ''nginx'',
             group_name = ''rg'', group_location = ''westus''\<rparr>"
  have tag: "docker_tag ?h = ''registry.example.com/myorg'' @ ''/'' @ ''myapp''"
    by simp
  have no_slash: "CHR ''/'' \<notin> set ''myapp''" "CHR ''/'' \<notin> set (docker_tag ?g)"
    by simp_all
  note full = deployment_id_final_segment [of "''myapp''" "?h" "''registry.example.com/myorg''"]
  note bare = deployment_id_final_segment [of "[]" "?g" "[]"]
  have 1: "deployment_id ?h = Inr ''myapp''"
    using full no_slash(1) tag by blast
  have 2: "deployment_id ?g = Inr ''nginx''"
    using bare no_slash(2) by simp
  have 3: "deployment_id ?h =
             Inr (rev (takeWhile (\<lambda>c. c \<noteq> CHR ''/'') (rev ''registry.example.com/myorg/myapp'')))"
    using full by simp
  have 4: "\<exists>params. marathon_deploy_params ?h None = Inr params \<and>
                     map_of params ''id'' = Some (JString ''myapp'')"
    using full no_slash(1) tag by blast
  have "\<exists>params. marathon_deploy_params ?g
                     (Some \<lparr>default_share = ''data'', credentials_file_name = ''creds.json''\<rparr>) =
                     Inr params \<and>
                   map_of params ''id'' = Some (JString (docker_tag ?g))"
    using bare no_slash(2) by blast
  then have 5: "\<exists>params. marathon_deploy_params ?g
                     (Some \<lparr>default_share = ''data'', credentials_file_name = ''creds.json''\<rparr>) =
                     Inr params \<and>
                   map_of params ''id'' = Some (JString ''nginx'')"
    by simp
  show ?thesis
    using 1 2 3 4 5 by blast
qed

section \<open>The deployment request\<close>

lemma marathon_deploy_params_total: "\<exists>params. marathon_deploy_params h reg = Inr params"
proof -
  obtain did where "deployment_id h = Inr did"
    using deployment_id_total by blast
  then show ?thesis
    by (cases reg) (simp_all add: marathon_deploy_params_def)
qed

text \<open>
  Claim C9. The request built for a registry helper with default share \<open>s\<close> and
  credentials file name \<open>f\<close> is the request built without a registry helper, followed
  by the one extra key \<open>uris\<close> whose value is the one-element list holding
  \<open>file:///mnt/s/f\<close>; the request built without a registry helper has no \<open>uris\<close> key.
  Neither call raises.
\<close>

theorem marathon_deploy_params_uris:
  "\<exists>params.
     marathon_deploy_params h None = Inr params \<and>
     map_of params ''uris'' = None \<and>
     marathon_deploy_params h (Some r) =
       Inr (params @
            [(''uris'', JList [JString (''file:///mnt/'' @ default_share r @ ''/'' @
                                       credentials_file_name r)])])"
proof -
  obtain did where did: "deployment_id h = Inr did"
    using deployment_id_total by blast
  show ?thesis
    by (simp add: marathon_deploy_params_def did)
qed

theorem marathon_deploy_params_uris_witness:
  "\<exists>params.
     marathon_deploy_params
       \<lparr>name = ''acs'', docker_tag = ''registry.example.com/myorg/myapp'',
        group_name = ''rg'', group_location = ''westus''\<rparr> None = Inr params \<and>
     map_of params ''uris'' = None \<and>
     marathon_deploy_params
       \<lparr>name = ''acs'', docker_tag = ''registry.example.com/myorg/myapp'',
        group_name = ''rg'', group_location = ''westus''\<rparr>
       (Some \<lparr>default_share = ''data'', credentials_file_name = ''creds.json''\<rparr>) =
       Inr (params @ [(''uris'', JList [JString ''file:///mnt/data/creds.json''])])"
  using marathon_deploy_params_uris
    [of "\<lparr>name = ''acs'', docker_tag = ''registry.example.com/myorg/myapp'',
          group_name = ''rg'', group_location = ''westus''\<rparr>"
        "\<lparr>default_share = ''data'', credentials_file_name = ''creds.json''\<rparr>"]
  by simp


section \<open>Provisioning\<close>

lemma trace_emit [simp]: "trace (emit evs s) = trace s @ evs"
  by (simp add: emit_def)

lemma cached_emit [simp]: "cached (emit evs s) = cached s"
  by (simp add: emit_def)

lemma count_ev_emit [simp]: "count_ev p (emit evs s) = count_ev p s + length (filter p evs)"
  by (simp add: count_ev_def)

lemma count_ev_cached [simp]: "count_ev p (s\<lparr>cached := c\<rparr>) = count_ev p s"
  by (simp add: count_ev_def)

lemma emit_emit [simp]: "emit evs' (emit evs s) = emit (evs @ evs') s"
  by (simp add: emit_def)

lemma emit_cached_update [simp]: "emit evs (s\<lparr>cached := c\<rparr>) = (emit evs s)\<lparr>cached := c\<rparr>"
  by (simp add: emit_def)

lemma get_ssh_config_result:
  "get_ssh_config w s =
     (case get_key_path w of
        Inl e \<Rightarrow> (Inl e, s)
      | Inr p \<Rightarrow>
          (case read_file w (count_ev is_ReadFile s) (p @ ''.pub'') of
             Inl e \<Rightarrow> (Inl e, emit [ReadFile (p @ ''.pub'')] s)
           | Inr content \<Rightarrow>
               (Inr \<lparr>public_keys = [\<lparr>key_data = content\<rparr>]\<rparr>, emit [ReadFile (p @ ''.pub'')] s)))"
  by (simp add: get_ssh_config_def Let_def split: sum.splits)

lemma container_service_cached:
  "cached s = Some c \<Longrightarrow> container_service w h s = (Inr c, emit [Haikunate] s)"
  by (simp add: container_service_def Let_def)

lemma container_service_found:
  "cached s = None \<Longrightarrow>
   container_services_get w (count_ev is_ContainerGet s) (group_name h) (name h) = Inr c \<Longrightarrow>
   container_service w h s =
     (Inr c, (emit [Haikunate, ContainerGet (group_name h) (name h)] s)\<lparr>cached := Some c\<rparr>)"
  by (simp add: container_service_def Let_def)

lemma container_service_other_error:
  "cached s = None \<Longrightarrow>
   container_services_get w (count_ev is_ContainerGet s) (group_name h) (name h) = Inl e \<Longrightarrow>
   \<not> is_CloudError e \<Longrightarrow>
   container_service w h s = (Inl e, emit [Haikunate, ContainerGet (group_name h) (name h)] s)"
  by (simp add: container_service_def Let_def)

lemma container_service_cloud_error:
  "cached s = None \<Longrightarrow>
   container_services_get w (count_ev is_ContainerGet s) (group_name h) (name h) = Inl e \<Longrightarrow>
   is_CloudError e \<Longrightarrow>
   container_service w h s =
     (let s1 = emit [Haikunate, ContainerGet (group_name h) (name h)] s
      in case get_ssh_config w s1 of
           (Inl e', s2) \<Rightarrow> (Inl e', s2)
         | (Inr ssh_config, s2) \<Rightarrow>
             (let request = creation_request h (haikunate w (count_ev is_Haikunate s)) ssh_config;
                  s3 = emit [CreateOrUpdate (group_name h) (name h) request] s2
              in case container_services_create_or_update w (count_ev is_CreateOrUpdate s)
                        (group_name h) (name h) request of
                   Inl e' \<Rightarrow> (Inl e', s3)
                 | Inr (Inl e') \<Rightarrow> (Inl e', emit [PollerResult] s3)
                 | Inr (Inr c) \<Rightarrow> (Inr c, (emit [PollerResult] s3)\<lparr>cached := Some c\<rparr>)))"
  by (simp add: container_service_def Let_def get_ssh_config_result split: sum.splits prod.splits)

lemma container_service_caches:
  "container_service w h s = (Inr c, s1) \<Longrightarrow> cached s1 = Some c"
  by (auto simp: container_service_def Let_def get_ssh_config_result
           split: option.splits sum.splits prod.splits if_splits)

lemma container_service_creates:
  "count_ev is_CreateOrUpdate (snd (container_service w h s)) \<le> count_ev is_CreateOrUpdate s + 1"
  by (auto simp: container_service_def Let_def get_ssh_config_result
           split: option.splits sum.splits prod.splits if_splits)

lemma container_service_trace:
  "\<exists>evs. trace (snd (container_service w h s)) = trace s @ evs \<and>
         list_all (\<lambda>ev. is_Haikunate ev \<or> is_ContainerGet ev \<or> is_ReadFile ev \<or>
                         is_CreateOrUpdate ev \<or> is_PollerResult ev) evs"
  by (auto simp: container_service_def Let_def get_ssh_config_result
           split: option.splits sum.splits prod.splits if_splits)

lemma fresh_world_provision:
  "container_service fresh_world sample_helper initial_state = (Inr sample_service, provisioned_state)"
  by (simp add: container_service_def fresh_world_def sample_helper_def initial_state_def Let_def
        get_ssh_config_def get_key_path_def path_join_def creation_request_def count_ev_def emit_def
        sample_service_def sample_request_def provisioned_state_def)

text \<open>
  Claim C7. When nothing is cached, the lookup raises \<open>CloudError\<close> (404 not found
  included) and the public key file can be read, the call issues exactly one creation
  request. That request has a master profile with count 1 and the generated DNS
  prefix, exactly one agent pool profile, with count 1, VM size \<open>Standard_D1_v2\<close> and
  the master's DNS prefix followed by \<open>-agent\<close>, a Linux profile whose SSH configuration
  holds the contents of the public key file, and orchestrator type \<open>DCOS\<close>. The helper
  has no field for the VM size or the orchestrator: both are the literals of the code.
\<close>

theorem creation_request_shape:
  assumes "cached s = None"
    and "container_services_get w (count_ev is_ContainerGet s) (group_name h) (name h) =
           Inl (CloudError code)"
    and "environ_HOME w = Some home"
    and "read_file w (count_ev is_ReadFile s)
           (path_join (path_join home ''.ssh'') ''id_rsa'' @ ''.pub'') = Inr key"
  shows "\<exists>request pool.
           filter is_CreateOrUpdate (drop (length (trace s)) (trace (snd (container_service w h s)))) =
             [CreateOrUpdate (group_name h) (name h) request] \<and>
           master_count (master_profile request) = 1 \<and>
           dns_prefix (master_profile request) = haikunate w (count_ev is_Haikunate s) \<and>
           agent_pool_profiles request = [pool] \<and>
           pool_count pool = 1 \<and>
           vm_size pool = ''Standard_D1_v2'' \<and>
           pool_dns_prefix pool = dns_prefix (master_profile request) @ ''-agent'' \<and>
           public_keys (ssh (linux_profile request)) = [\<lparr>key_data = key\<rparr>] \<and>
           admin_username (linux_profile request) = name h \<and>
           orchestrator_type (orchestrator_profile request) = ''DCOS'' \<and>
           location request = group_location h"
proof -
  have kp: "get_key_path w = Inr (path_join (path_join home ''.ssh'') ''id_rsa'')"
    using assms(3) by (simp add: get_key_path_def)
  show ?thesis
    using assms(1,2,4)
    by (simp add: container_service_cloud_error get_ssh_config_result kp Let_def
          creation_request_def split: sum.splits)
qed

theorem creation_request_shape_witness:
  "\<exists>request pool.
     filter is_CreateOrUpdate
       (drop (length (trace initial_state))
          (trace (snd (container_service fresh_world sample_helper initial_state)))) =
       [CreateOrUpdate ''rg'' ''acs'' request] \<and>
     master_count (master_profile request) = 1 \<and>
     dns_prefix (master_profile request) = ''red-frog'' \<and>
     agent_pool_profiles request = [pool] \<and>
     pool_count pool = 1 \<and>
     vm_size pool = ''Standard_D1_v2'' \<and>
     pool_dns_prefix pool = ''red-frog-agent'' \<and>
     public_keys (ssh (linux_profile request)) = [\<lparr>key_data = ''ssh-rsa AAAA''\<rparr>] \<and>
     admin_username (linux_profile request) = ''acs'' \<and>
     orchestrator_type (orchestrator_profile request) = ''DCOS'' \<and>
     location request = ''westus''"
proof -
  have 1: "cached initial_state = None"
    by (simp add: initial_state_def)
  have 2: "container_services_get fresh_world (count_ev is_ContainerGet initial_state)
             (group_name sample_helper) (name sample_helper) = Inl (CloudError 404)"
    by (simp add: fresh_world_def)
  have 3: "environ_HOME fresh_world = Some ''/home/op''"
    by (simp add: fresh_world_def)
  have 4: "read_file fresh_world (count_ev is_ReadFile initial_state)
             (path_join (path_join ''/home/op'' ''.ssh'') ''id_rsa'' @ ''.pub'') = Inr ''ssh-rsa AAAA''"
    by (simp add: fresh_world_def)
  have 5: "haikunate fresh_world (count_ev is_Haikunate initial_state) = ''red-frog''"
    by (simp add: fresh_world_def)
  have 6: "group_name sample_helper = ''rg''" "name sample_helper = ''acs''"
    "group_location sample_helper = ''westus''"
    by (simp_all add: sample_helper_def)
  show ?thesis
    using creation_request_shape [OF 1 2 3 4] unfolding 5 6 by (simp cong: conj_cong)
qed

text \<open>
  Claim C1, as amended. Once an access of the property has returned a service, the
  next access on the same helper, and every later one whatever calls were traced in
  between, returns the same service and adds nothing to the trace but the local name
  generation: no lookup and no creation request. Over the first two accesses at most
  one creation request is issued.
\<close>

theorem container_service_cache_read:
  assumes "container_service w h s = (Inr c, s1)"
  shows "container_service w h s1 = (Inr c, emit [Haikunate] s1) \<and>
         (\<forall>evs. container_service w h (emit evs s1) = (Inr c, emit (evs @ [Haikunate]) s1)) \<and>
         count_ev is_CreateOrUpdate (snd (container_service w h s1)) \<le>
           count_ev is_CreateOrUpdate s + 1"
proof -
  have c: "cached s1 = Some c"
    using assms by (rule container_service_caches)
  have second: "container_service w h s1 = (Inr c, emit [Haikunate] s1)"
    using c by (rule container_service_cached)
  have later: "container_service w h (emit evs s1) = (Inr c, emit (evs @ [Haikunate]) s1)" for evs
    using container_service_cached [of "emit evs s1" c w h] c by simp
  have "count_ev is_CreateOrUpdate s1 \<le> count_ev is_CreateOrUpdate s + 1"
    using container_service_creates [of w h s] assms by simp
  then show ?thesis using later by (simp add: second)
qed

theorem container_service_cache_read_witness:
  "container_service fresh_world sample_helper initial_state =
     (Inr sample_service, provisioned_state) \<and>
   container_service fresh_world sample_helper provisioned_state =
     (Inr sample_service, emit [Haikunate] provisioned_state) \<and>
   container_service fresh_world sample_helper (emit [Haikunate] provisioned_state) =
     (Inr sample_service, emit [Haikunate, Haikunate] provisioned_state) \<and>
   count_ev is_CreateOrUpdate (snd (container_service fresh_world sample_helper provisioned_state)) \<le>
     count_ev is_CreateOrUpdate initial_state + 1"
proof -
  note r = container_service_cache_read [OF fresh_world_provision]
  have "container_service fresh_world sample_helper (emit [Haikunate] provisioned_state) =
          (Inr sample_service, emit ([Haikunate] @ [Haikunate]) provisioned_state)"
    using r by blast
  then have later: "container_service fresh_world sample_helper (emit [Haikunate] provisioned_state) =
          (Inr sample_service, emit [Haikunate, Haikunate] provisioned_state)"
    by simp
  show ?thesis
    using r later fresh_world_provision by blast
qed

text \<open>
  Claim C1 as stated fails when the first access raises. With a lookup that answers 404
  and a creation that is refused, the first access issues a creation request, raises
  and caches nothing; the second access issues a second creation request.
\<close>

theorem container_service_twice_counterexample:
  "\<not> count_ev is_CreateOrUpdate
       (snd (container_service refusing_world sample_helper
               (snd (container_service refusing_world sample_helper initial_state)))) \<le> 1"
  by (simp add: container_service_def refusing_world_def fresh_world_def sample_helper_def
        initial_state_def Let_def get_ssh_config_def get_key_path_def path_join_def
        creation_request_def count_ev_def emit_def)

text \<open>
  Claim C2, as amended. With nothing cached, a creation request is issued exactly when
  the lookup raises a \<open>CloudError\<close>, whatever its status, and the SSH public key can be
  read. When the lookup raises an exception of any other class, no creation request
  is issued and that exception reaches the caller unchanged, after the name generation
  and the lookup alone.
\<close>

theorem creation_iff_cloud_error:
  assumes "cached s = None"
  shows "(list_ex is_CreateOrUpdate
            (drop (length (trace s)) (trace (snd (container_service w h s)))) \<longleftrightarrow>
          (\<exists>code. container_services_get w (count_ev is_ContainerGet s) (group_name h) (name h) =
                    Inl (CloudError code)) \<and>
          (\<exists>ssh_config. fst (get_ssh_config w s) = Inr ssh_config)) \<and>
         (\<forall>e. container_services_get w (count_ev is_ContainerGet s) (group_name h) (name h) = Inl e \<longrightarrow>
              \<not> is_CloudError e \<longrightarrow>
              container_service w h s =
                (Inl e, emit [Haikunate, ContainerGet (group_name h) (name h)] s))"
proof -
  let ?get = "container_services_get w (count_ev is_ContainerGet s) (group_name h) (name h)"
  have other: "container_service w h s =
                 (Inl e, emit [Haikunate, ContainerGet (group_name h) (name h)] s)"
    if "?get = Inl e" "\<not> is_CloudError e" for e
    using assms that by (rule container_service_other_error)
  have iff: "list_ex is_CreateOrUpdate
               (drop (length (trace s)) (trace (snd (container_service w h s)))) \<longleftrightarrow>
             (\<exists>code. ?get = Inl (CloudError code)) \<and>
             (\<exists>ssh_config. fst (get_ssh_config w s) = Inr ssh_config)"
  proof (cases ?get)
    case (Inr c)
    then show ?thesis
      using assms by (simp add: container_service_found)
  next
    case (Inl e)
    show ?thesis
    proof (cases "is_CloudError e")
      case False
      then have "\<And>code. e \<noteq> CloudError code" by auto
      then show ?thesis
        using Inl other [OF Inl False] by simp
    next
      case True
      then obtain code where e: "e = CloudError code" by (cases e) auto
      show ?thesis
        using assms Inl True
        by (simp add: container_service_cloud_error get_ssh_config_result Let_def e
              split: sum.splits)
    qed
  qed
  show ?thesis using iff other by blast
qed

theorem creation_iff_cloud_error_witness:
  "container_service timeout_world sample_helper initial_state =
     (Inl (OtherError ''timeout''), emit [Haikunate, ContainerGet ''rg'' ''acs''] initial_state) \<and>
   \<not> list_ex is_CreateOrUpdate
       (drop (length (trace initial_state))
          (trace (snd (container_service timeout_world sample_helper initial_state)))) \<and>
   list_ex is_CreateOrUpdate
     (drop (length (trace initial_state))
        (trace (snd (container_service fresh_world sample_helper initial_state))))"
proof -
  have none: "cached initial_state = None"
    by (simp add: initial_state_def)
  have t: "container_services_get timeout_world (count_ev is_ContainerGet initial_state)
             (group_name sample_helper) (name sample_helper) = Inl (OtherError ''timeout'')"
    by (simp add: timeout_world_def fresh_world_def)
  have f: "container_services_get fresh_world (count_ev is_ContainerGet initial_state)
             (group_name sample_helper) (name sample_helper) = Inl (CloudError 404)"
    by (simp add: fresh_world_def)
  have k: "fst (get_ssh_config fresh_world initial_state) =
             Inr \<lparr>public_keys = [\<lparr>key_data = ''ssh-rsa AAAA''\<rparr>]\<rparr>"
    by (simp add: get_ssh_config_result get_key_path_def fresh_world_def)
  have n: "group_name sample_helper = ''rg''" "name sample_helper = ''acs''"
    by (simp_all add: sample_helper_def)
  note a = creation_iff_cloud_error [OF none, of timeout_world sample_helper]
  note b = creation_iff_cloud_error [OF none, of fresh_world sample_helper]
  have 1: "container_service timeout_world sample_helper initial_state =
             (Inl (OtherError ''timeout''), emit [Haikunate, ContainerGet ''rg'' ''acs''] initial_state)"
    using a t n by simp
  have 2: "\<not> list_ex is_CreateOrUpdate
               (drop (length (trace initial_state))
                  (trace (snd (container_service timeout_world sample_helper initial_state))))"
    using a unfolding t by simp
  have 3: "list_ex is_CreateOrUpdate
             (drop (length (trace initial_state))
                (trace (snd (container_service fresh_world sample_helper initial_state))))"
    using b unfolding f k by simp
  show ?thesis using 1 2 3 by blast
qed

text \<open>
  Claim C2 as stated fails for a lookup that raises a \<open>CloudError\<close> other than not
  found. With a lookup refused with status 403 and a creation that succeeds, a creation
  request is issued and the access returns the created service: the lookup's error
  does not reach the caller.
\<close>

theorem creation_after_auth_failure_counterexample:
  "container_services_get forbidden_lookup_world 0 ''rg'' ''acs'' = Inl (CloudError 403) \<and>
   fst (container_service forbidden_lookup_world sample_helper initial_state) = Inr sample_service \<and>
   filter is_CreateOrUpdate
     (trace (snd (container_service forbidden_lookup_world sample_helper initial_state))) =
     [CreateOrUpdate ''rg'' ''acs'' sample_request]"
  by (simp add: container_service_def forbidden_lookup_world_def fresh_world_def sample_helper_def
        initial_state_def Let_def get_ssh_config_def get_key_path_def path_join_def
        creation_request_def count_ev_def emit_def sample_service_def sample_request_def)

section \<open>The interactive shell\<close>

lemma fresh_world_address:
  "master_ssh_address fresh_world sample_helper initial_state =
     (Inr (Some ''master.example.com''), provisioned_state)"
  by (simp add: master_ssh_address_def fresh_world_provision sample_service_def sample_request_def)

lemma fresh_world_shell:
  "cluster_ssh_open fresh_world sample_helper initial_state =
     (Inr 4242,
      emit [Print [PStr ''Connecting to cluster:'',
                   PStr ''ssh -i /home/op/.ssh/id_rsa acs@master.example.com''],
            Popen [''ssh'', ''-i'', ''/home/op/.ssh/id_rsa'', ''acs@master.example.com'']]
        provisioned_state)"
proof -
  have name: "name sample_helper = ''acs''"
    by (simp add: sample_helper_def)
  have login: "master_ssh_login fresh_world sample_helper initial_state =
                 (Inr ''acs@master.example.com'', provisioned_state)"
    by (simp add: master_ssh_login_def fresh_world_address name format_opt_def)
  have key: "get_key_path fresh_world = Inr ''/home/op/.ssh/id_rsa''"
    by (simp add: get_key_path_def fresh_world_def path_join_def)
  have popen: "subprocess_Popen fresh_world n cmd = Inr 4242" for n cmd
    by (simp add: fresh_world_def)
  show ?thesis
    by (simp add: cluster_ssh_open_def login key popen Let_def)
qed

text \<open>
  Claim C10. Once the subprocess is started, \<^verbatim>\<open>terminate\<close> is called only when the body
  of the \<^verbatim>\<open>with\<close> block returns. When the body raises, the exception reaches the caller
  and the state is the one the body left: \<^verbatim>\<open>cluster_ssh\<close> adds no call, so the
  subprocess is never terminated by it. When the body returns, \<^verbatim>\<open>cluster_ssh\<close> adds
  exactly one call, the \<^verbatim>\<open>terminate\<close> of the subprocess it started.
\<close>

theorem cluster_ssh_terminate:
  assumes "cluster_ssh_open w h s = (Inr proc, s1)"
  shows "(\<forall>e s2. body proc s1 = (Inl e, s2) \<longrightarrow>
            cluster_ssh w h body s = (Inl e, s2) \<and>
            count_ev is_Terminate (snd (cluster_ssh w h body s)) = count_ev is_Terminate s2) \<and>
         (\<forall>v s2. body proc s1 = (Inr v, s2) \<longrightarrow>
            cluster_ssh w h body s = (Inr v, emit [Terminate proc] s2) \<and>
            count_ev is_Terminate (snd (cluster_ssh w h body s)) = count_ev is_Terminate s2 + 1)"
  using assms by (simp add: cluster_ssh_def)

theorem cluster_ssh_terminate_witness:
  "cluster_ssh fresh_world sample_helper (\<lambda>proc s. (Inl KeyboardInterrupt :: exn + unit, s))
       initial_state =
     (Inl KeyboardInterrupt,
      emit [Print [PStr ''Connecting to cluster:'',
                   PStr ''ssh -i /home/op/.ssh/id_rsa acs@master.example.com''],
            Popen [''ssh'', ''-i'', ''/home/op/.ssh/id_rsa'', ''acs@master.example.com'']]
        provisioned_state) \<and>
   cluster_ssh fresh_world sample_helper (\<lambda>proc s. (Inr (), s)) initial_state =
     (Inr (),
      emit [Print [PStr ''Connecting to cluster:'',
                   PStr ''ssh -i /home/op/.ssh/id_rsa acs@master.example.com''],
            Popen [''ssh'', ''-i'', ''/home/op/.ssh/id_rsa'', ''acs@master.example.com''],
            Terminate 4242]
        provisioned_state)"
  using cluster_ssh_terminate
          [OF fresh_world_shell, of "\<lambda>proc s. (Inl KeyboardInterrupt :: exn + unit, s)"]
        cluster_ssh_terminate [OF fresh_world_shell, of "\<lambda>proc s. (Inr (), s)"]
  by simp

section \<open>The polling loop\<close>

lemma emit_Nil [simp]: "emit [] s = s"
  by (simp add: emit_def)

lemma poll_emits:
  assumes "poll w url s = Some y"
  shows "\<exists>evs. snd y = emit evs s \<and> list_all (\<lambda>ev. is_Print ev \<or> is_Get ev \<or> is_Sleep ev) evs"
proof (rule poll.raw_induct
         [where P = "\<lambda>w url s y. \<exists>evs. snd y = emit evs s \<and>
                       list_all (\<lambda>ev. is_Print ev \<or> is_Get ev \<or> is_Sleep ev) evs",
          OF _ assms], goal_cases)
  case (1 poll w url s y)
  show ?case
  proof (cases "requests_get w (count_ev is_Get s) (url @ ''deployments'')")
    case (Inl e)
    with 1(2) show ?thesis
      by (auto simp: Let_def intro!: exI [of _ "[_, _, _]"])
  next
    case (Inr response)
    note resp = this
    show ?thesis
    proof (cases "json_body response")
      case (Inl e)
      with 1(2) resp show ?thesis
        by (auto simp: Let_def intro!: exI [of _ "[_, _, _]"])
    next
      case (Inr v)
      note body = this
      show ?thesis
      proof (cases "truthy v")
        case False
        with 1(2) resp body show ?thesis
          by (auto simp: Let_def intro!: exI [of _ "[_, _, _]"])
      next
        case True
        show ?thesis
        proof (cases "time_sleep w (count_ev is_Sleep s) 5")
          case (Some e)
          with 1(2) resp body True show ?thesis
            by (auto simp: Let_def intro!: exI [of _ "[_, _, _, _, _]"])
        next
          case None
          let ?round = "[Print [PStr ''Making sure deployment finishes.''],
                         Print [PStr ''Initial simple-docker deploy should take about 30 seconds.''],
                         Get (url @ ''deployments''),
                         Print [PStr ''Waiting for deployment to finish...''], Sleep 5]"
          from None 1(2) resp body True
          have "poll w url (emit ?round s) = Some y"
            by (simp add: Let_def)
          from 1(1) [OF this] obtain evs where
            evs: "snd y = emit (?round @ evs) s"
              "list_all (\<lambda>ev. is_Print ev \<or> is_Get ev \<or> is_Sleep ev) evs"
            by auto
          show ?thesis
            by (rule exI [of _ "?round @ evs"]) (simp add: evs)
        qed
      qed
    qed
  qed
qed

lemma poll_pending:
  assumes "\<forall>i<length (pending @ [[]]). \<exists>resp.
             requests_get w (count_ev is_Get s + i) (url @ ''deployments'') = Inr resp \<and>
             json_body resp = Inr (JList ((pending @ [[]]) ! i))"
    and "[] \<notin> set pending"
    and "\<forall>i<length pending. time_sleep w (count_ev is_Sleep s + i) 5 = None"
  shows "poll w url s =
           Some (Inr (),
                 emit (concat (replicate (length pending)
                         [Print [PStr ''Making sure deployment finishes.''],
                          Print [PStr ''Initial simple-docker deploy should take about 30 seconds.''],
                          Get (url @ ''deployments''),
                          Print [PStr ''Waiting for deployment to finish...''],
                          Sleep 5]) @
                       [Print [PStr ''Making sure deployment finishes.''],
                        Print [PStr ''Initial simple-docker deploy should take about 30 seconds.''],
                        Get (url @ ''deployments'')]) s)"
  using assms
proof (induction pending arbitrary: s)
  case Nil
  then obtain resp where
    "requests_get w (count_ev is_Get s) (url @ ''deployments'') = Inr resp"
    "json_body resp = Inr (JList [])"
    by auto
  then show ?case
    by (subst poll.simps) (simp add: Let_def)
next
  case (Cons d ds)
  let ?round = "[Print [PStr ''Making sure deployment finishes.''],
                 Print [PStr ''Initial simple-docker deploy should take about 30 seconds.''],
                 Get (url @ ''deployments''),
                 Print [PStr ''Waiting for deployment to finish...''],
                 Sleep 5]"
  from Cons.prems(1) [rule_format, of 0] obtain resp where
    resp: "requests_get w (count_ev is_Get s) (url @ ''deployments'') = Inr resp"
      "json_body resp = Inr (JList d)"
    by auto
  have d: "d \<noteq> []"
    using Cons.prems(2) by auto
  have sleep: "time_sleep w (count_ev is_Sleep s) 5 = None"
    using Cons.prems(3) [rule_format, of 0] by simp
  have step: "poll w url s = poll w url (emit ?round s)"
    by (subst poll.simps) (simp add: Let_def resp d sleep)
  have gets: "\<forall>i<length (ds @ [[]]). \<exists>resp.
                requests_get w (count_ev is_Get (emit ?round s) + i) (url @ ''deployments'') = Inr resp \<and>
                json_body resp = Inr (JList ((ds @ [[]]) ! i))"
  proof (intro allI impI)
    fix i
    assume "i < length (ds @ [[]])"
    then have "Suc i < length ((d # ds) @ [[]])" by simp
    from Cons.prems(1) [rule_format, OF this] show
      "\<exists>resp. requests_get w (count_ev is_Get (emit ?round s) + i) (url @ ''deployments'') = Inr resp \<and>
              json_body resp = Inr (JList ((ds @ [[]]) ! i))"
      by simp
  qed
  have sleeps: "\<forall>i<length ds. time_sleep w (count_ev is_Sleep (emit ?round s) + i) 5 = None"
  proof (intro allI impI)
    fix i
    assume "i < length ds"
    then have "Suc i < length (d # ds)" by simp
    from Cons.prems(3) [rule_format, OF this] show
      "time_sleep w (count_ev is_Sleep (emit ?round s) + i) 5 = None"
      by simp
  qed
  have rest: "[] \<notin> set ds"
    using Cons.prems(2) by auto
  show ?case
    unfolding step by (subst Cons.IH [OF gets rest sleeps]) simp
qed

text \<open>
  Claim C4. Let the answers to \<^verbatim>\<open>GET deployments\<close>, from the loop's first request on, be
  the lists \<open>pending @ [[]]\<close>: non-empty lists followed by the empty list, and let no
  sleep be interrupted. Then the loop returns normally, and its requests and sleeps are,
  in order, one \<open>GET\<close> followed by a sleep of 5 seconds for every non-empty answer and
  one last \<open>GET\<close> for the empty answer, after which nothing follows: one \<open>GET\<close> per
  answer (three for two pending answers and an empty one).
\<close>

theorem poll_one_get_per_response:
  assumes "\<forall>i<length (pending @ [[]]). \<exists>resp.
             requests_get w (count_ev is_Get s + i) (url @ ''deployments'') = Inr resp \<and>
             json_body resp = Inr (JList ((pending @ [[]]) ! i))"
    and "[] \<notin> set pending"
    and "\<forall>i<length pending. time_sleep w (count_ev is_Sleep s + i) 5 = None"
  shows "\<exists>s'. poll w url s = Some (Inr (), s') \<and>
              filter (\<lambda>ev. is_Get ev \<or> is_Sleep ev) (drop (length (trace s)) (trace s')) =
                concat (replicate (length pending) [Get (url @ ''deployments''), Sleep 5]) @
                [Get (url @ ''deployments'')] \<and>
              count_ev is_Get s' = count_ev is_Get s + length (pending @ [[]])"
proof -
  have f: "filter (\<lambda>ev. is_Get ev \<or> is_Sleep ev)
             (concat (replicate n
                [Print a, Print b, Get u, Print c, Sleep 5])) =
           concat (replicate n [Get u, Sleep 5])" for n a b c u
    by (induction n) simp_all
  have g: "length (filter is_Get (concat (replicate n
                [Print a, Print b, Get u, Print c, Sleep 5]))) = n" for n a b c u
    by (induction n) simp_all
  show ?thesis
    by (simp add: poll_pending [OF assms] f g)
qed

theorem poll_one_get_per_response_witness:
  "\<exists>s'. poll fresh_world ''http://127.0.0.1:8001/marathon/v2/'' initial_state = Some (Inr (), s') \<and>
         filter (\<lambda>ev. is_Get ev \<or> is_Sleep ev) (drop (length (trace initial_state)) (trace s')) =
           [Get ''http://127.0.0.1:8001/marathon/v2/deployments'', Sleep 5,
            Get ''http://127.0.0.1:8001/marathon/v2/deployments'', Sleep 5,
            Get ''http://127.0.0.1:8001/marathon/v2/deployments''] \<and>
         count_ev is_Get s' = 3"
proof -
  let ?d = "[JDict [(''id'', JString ''d1'')]]"
  have gets: "\<forall>i<length ([?d, ?d] @ [[]]). \<exists>resp.
                requests_get fresh_world (count_ev is_Get initial_state + i)
                  (''http://127.0.0.1:8001/marathon/v2/'' @ ''deployments'') = Inr resp \<and>
                json_body resp = Inr (JList (([?d, ?d] @ [[]]) ! i))"
    by (auto simp: fresh_world_def less_Suc_eq numeral_3_eq_3 count_ev_def initial_state_def)
  have nonempty: "[] \<notin> set [?d, ?d]"
    by simp
  have sleeps: "\<forall>i<length [?d, ?d].
                  time_sleep fresh_world (count_ev is_Sleep initial_state + i) 5 = None"
    by (simp add: fresh_world_def)
  have zero: "count_ev is_Get initial_state = 0"
    by (simp add: count_ev_def initial_state_def)
  show ?thesis
    using poll_one_get_per_response [OF gets nonempty sleeps]
    by (simp add: zero numeral_3_eq_3 cong: conj_cong)
qed

section \<open>Deployment through the tunnel\<close>

lemma deploy_body_emits:
  assumes "deploy_body w h reg bound s = Some y"
  shows "\<exists>evs. snd y = emit evs s \<and>
           list_all (\<lambda>ev. is_Print ev \<or> is_Post ev \<or> is_Get ev \<or> is_Sleep ev) evs"
proof -
  let ?ok = "\<lambda>ev. is_Print ev \<or> is_Post ev \<or> is_Get ev \<or> is_Sleep ev"
  have via_poll: "\<exists>evs. snd y = emit evs s \<and> list_all ?ok evs"
    if "poll w url (emit pre s) = Some y" "list_all ?ok pre" for url pre
  proof -
    from poll_emits [OF that(1)] obtain evs where
      evs: "snd y = emit evs (emit pre s)"
        "list_all (\<lambda>ev. is_Print ev \<or> is_Get ev \<or> is_Sleep ev) evs"
      by blast
    have "list_all ?ok evs"
      using evs(2) by (auto simp: list_all_iff)
    then show ?thesis
      using evs(1) that(2) by (intro exI [of _ "pre @ evs"]) simp
  qed
  have direct: "\<exists>evs. snd y = emit evs s \<and> list_all ?ok evs"
    if "y = (r, emit pre s)" "list_all ?ok pre" for r pre
    using that by (intro exI [of _ pre]) simp
  show ?thesis
  proof (cases "marathon_deploy_params h reg")
    case (Inl e)
    with assms have "y = (Inl e, emit [Print [PStr (''Attempting to deploy Docker image '' @
                                                    docker_tag h)]] s)"
      by (simp add: deploy_body_def Let_def)
    then show ?thesis by (rule direct) simp
  next
    case (Inr params)
    note params = this
    let ?base = "''http://'' @ fst bound @ '':'' @ str_nat (snd bound) @ ''/marathon/v2/''"
    let ?sent = "[Print [PStr (''Attempting to deploy Docker image '' @ docker_tag h)],
                  Post (?base @ ''apps'') (JDict params)]"
    show ?thesis
    proof (cases "requests_post w (count_ev is_Post s) (?base @ ''apps'') (JDict params)")
      case (Inl e)
      with assms params have "y = (Inl e, emit ?sent s)"
        by (simp add: deploy_body_def Let_def)
      then show ?thesis by (rule direct) simp
    next
      case (Inr response)
      note post = this
      show ?thesis
      proof (cases "json_body response")
        case (Inl e)
        with assms params post have "y = (Inl e, emit ?sent s)"
          by (simp add: deploy_body_def Let_def)
        then show ?thesis by (rule direct) simp
      next
        case (Inr content)
        note content = this
        let ?ok_sent = "?sent @ [Print [PStr ''Deployment request successful.'']]"
        show ?thesis
        proof (cases "py_in ''deployments'' content")
          case (Inl e)
          with assms params post content have "y = (Inl e, emit ?ok_sent s)"
            by (simp add: deploy_body_def Let_def)
          then show ?thesis by (rule direct) simp
        next
          case (Inr present)
          note present = this
          show ?thesis
          proof (cases present)
            case False
            with assms params post content present
            have "poll w ?base (emit (?ok_sent @ [Print [PJson content]]) s) = Some y"
              by (simp add: deploy_body_def Let_def)
            then show ?thesis by (rule via_poll) simp
          next
            case True
            note true = this
            show ?thesis
            proof (cases "py_getitem content ''deployments''")
              case (Inl e)
              with assms params post content present true have "y = (Inl e, emit ?ok_sent s)"
                by (simp add: deploy_body_def Let_def)
              then show ?thesis by (rule direct) simp
            next
              case (Inr d)
              with assms params post content present true
              have "poll w ?base (emit (?ok_sent @ [Print [PStr ''Deployments: '', PJson d]]) s) =
                      Some y"
                by (simp add: deploy_body_def Let_def)
              then show ?thesis by (rule via_poll) simp
            qed
          qed
        qed
      qed
    qed
  qed
qed

lemma master_ssh_address_trace:
  "\<exists>evs. trace (snd (master_ssh_address w h s)) = trace s @ evs \<and>
         list_all (\<lambda>ev. is_Haikunate ev \<or> is_ContainerGet ev \<or> is_ReadFile ev \<or>
                         is_CreateOrUpdate ev \<or> is_PollerResult ev) evs"
  using container_service_trace [of w h s]
  by (auto simp: master_ssh_address_def split: prod.splits sum.splits)

lemma tunnel_error_handler_raises:
  "\<exists>e'. fst (tunnel_error_handler w h host rp lp e s) = Inl e' \<and>
         (e \<noteq> HandlerSSHTunnelForwarderError \<longrightarrow> e' = e)"
  by (auto simp: tunnel_error_handler_def Let_def split: prod.splits sum.splits)

lemma tunnel_error_handler_trace:
  "\<exists>evs. trace (snd (tunnel_error_handler w h host rp lp e s)) = trace s @ evs \<and>
         list_all (\<lambda>ev. \<not> is_TunnelStart ev \<and> \<not> is_TunnelStop ev \<and>
                         \<not> is_Post ev \<and> \<not> is_Get ev \<and> \<not> is_Sleep ev) evs"
proof (cases "e = HandlerSSHTunnelForwarderError")
  case False
  then show ?thesis by (simp add: tunnel_error_handler_def)
next
  case True
  let ?s1 = "emit [PrintExc, Print [PStr ''Opening SSH tunnel failed.''],
                   Print [PStr ''Please try the following command in a terminal:'']] s"
  from master_ssh_address_trace [of w h ?s1] obtain evs where
    evs: "trace (snd (master_ssh_address w h ?s1)) = trace ?s1 @ evs"
      "list_all (\<lambda>ev. is_Haikunate ev \<or> is_ContainerGet ev \<or> is_ReadFile ev \<or>
                       is_CreateOrUpdate ev \<or> is_PollerResult ev) evs"
    by blast
  have quiet: "list_all (\<lambda>ev. \<not> is_TunnelStart ev \<and> \<not> is_TunnelStop ev \<and>
                         \<not> is_Post ev \<and> \<not> is_Get ev \<and> \<not> is_Sleep ev) evs"
    using evs(2) by (auto simp: list_all_iff)
  obtain r s2 where m: "master_ssh_address w h ?s1 = (r, s2)"
    by (cases "master_ssh_address w h ?s1")
  show ?thesis
  proof (cases r)
    case (Inl e')
    with True m evs(1) quiet show ?thesis
      by (intro exI [of _ "[PrintExc, Print [PStr ''Opening SSH tunnel failed.''],
               Print [PStr ''Please try the following command in a terminal:'']] @ evs"])
         (simp add: tunnel_error_handler_def Let_def)
  next
    case (Inr addr)
    with True m evs(1) quiet show ?thesis
      by (intro exI [of _ "[PrintExc, Print [PStr ''Opening SSH tunnel failed.''],
               Print [PStr ''Please try the following command in a terminal:'']] @ evs @
               [Print [PStr (''ssh -N -L '' @ host @ '':'' @ str_nat lp @ '':'' @ host @ '':'' @
                             str_nat rp @ '' '' @ format_opt addr)]]"])
         (simp add: tunnel_error_handler_def Let_def)
  qed
qed

lemma deploy_container_open:
  assumes "ssh_tunnel_args w h ''127.0.0.1'' ''127.0.0.1'' 80 8001 s = (Inr args, s1)"
    and "tunnel_start w (count_ev is_TunnelStart s1) args = Inr bound"
  shows "deploy_container w h reg s =
           (case deploy_body w h reg bound (emit [TunnelStart args] s1) of
              None \<Rightarrow> None
            | Some (r, s3) \<Rightarrow>
                (case r of
                   Inl e \<Rightarrow>
                     Some (tunnel_error_handler w h ''127.0.0.1'' 80 8001 e (emit [TunnelStop] s3))
                 | Inr u \<Rightarrow> Some (Inr u, emit [TunnelStop] s3)))"
  using assms by (simp add: deploy_container_def Let_def split: option.splits prod.splits sum.splits)

lemma sample_provision:
  assumes "haikunate w = haikunate fresh_world"
    and "container_services_get w = container_services_get fresh_world"
    and "container_services_create_or_update w = container_services_create_or_update fresh_world"
    and "environ_HOME w = environ_HOME fresh_world"
    and "read_file w = read_file fresh_world"
  shows "container_service w sample_helper initial_state = (Inr sample_service, provisioned_state)"
  by (simp add: container_service_def assms fresh_world_def sample_helper_def initial_state_def Let_def
        get_ssh_config_def get_key_path_def path_join_def creation_request_def count_ev_def emit_def
        sample_service_def sample_request_def provisioned_state_def)

lemma sample_tunnel_args_result:
  assumes "haikunate w = haikunate fresh_world"
    and "container_services_get w = container_services_get fresh_world"
    and "container_services_create_or_update w = container_services_create_or_update fresh_world"
    and "environ_HOME w = environ_HOME fresh_world"
    and "read_file w = read_file fresh_world"
  shows "ssh_tunnel_args w sample_helper ''127.0.0.1'' ''127.0.0.1'' 80 8001 initial_state =
           (Inr sample_tunnel_args, provisioned_state)"
proof -
  have key: "get_key_path w = Inr ''/home/op/.ssh/id_rsa''"
    by (simp add: get_key_path_def assms(4) fresh_world_def path_join_def)
  have name: "name sample_helper = ''acs''"
    by (simp add: sample_helper_def)
  show ?thesis
    by (simp add: ssh_tunnel_args_def master_ssh_address_def sample_provision [OF assms] key name
          sample_tunnel_args_def sample_service_def sample_request_def)
qed

lemma provisioned_state_counts:
  "count_ev is_TunnelStart provisioned_state = 0"
  "count_ev is_Post provisioned_state = 0"
  "count_ev is_Get provisioned_state = 0"
  "count_ev is_Sleep provisioned_state = 0"
  "count_ev is_Haikunate provisioned_state = 1"
  "cached provisioned_state = Some sample_service"
  by (simp_all add: count_ev_def provisioned_state_def)

lemma sample_params: "\<exists>params. marathon_deploy_params sample_helper None = Inr params"
  by (rule marathon_deploy_params_total)

lemma sample_poll:
  assumes "requests_get w = requests_get fresh_world"
    and "time_sleep w = time_sleep fresh_world"
    and "count_ev is_Get s = 0"
  shows "poll w ''http://127.0.0.1:8001/marathon/v2/'' s =
           Some (Inr (),
                 emit [Print [PStr ''Making sure deployment finishes.''],
                       Print [PStr ''Initial simple-docker deploy should take about 30 seconds.''],
                       Get ''http://127.0.0.1:8001/marathon/v2/deployments'',
                       Print [PStr ''Waiting for deployment to finish...''],
                       Sleep 5,
                       Print [PStr ''Making sure deployment finishes.''],
                       Print [PStr ''Initial simple-docker deploy should take about 30 seconds.''],
                       Get ''http://127.0.0.1:8001/marathon/v2/deployments'',
                       Print [PStr ''Waiting for deployment to finish...''],
                       Sleep 5,
                       Print [PStr ''Making sure deployment finishes.''],
                       Print [PStr ''Initial simple-docker deploy should take about 30 seconds.''],
                       Get ''http://127.0.0.1:8001/marathon/v2/deployments''] s)"
proof -
  let ?d = "[JDict [(''id'', JString ''d1'')]]"
  have gets: "\<forall>i<length ([?d, ?d] @ [[]]). \<exists>resp.
                requests_get w (count_ev is_Get s + i)
                  (''http://127.0.0.1:8001/marathon/v2/'' @ ''deployments'') = Inr resp \<and>
                json_body resp = Inr (JList (([?d, ?d] @ [[]]) ! i))"
    by (auto simp: assms fresh_world_def less_Suc_eq numeral_3_eq_3)
  have nonempty: "[] \<notin> set [?d, ?d]"
    by simp
  have sleeps: "\<forall>i<length [?d, ?d]. time_sleep w (count_ev is_Sleep s + i) 5 = None"
    by (simp add: assms fresh_world_def)
  show ?thesis
    using poll_pending [OF gets nonempty sleeps] by (simp add: numeral_2_eq_2)
qed

lemma interrupted_world_run:
  "\<exists>s'. deploy_container interrupted_world sample_helper None initial_state =
         Some (Inl KeyboardInterrupt, s')"
proof -
  have args: "ssh_tunnel_args interrupted_world sample_helper ''127.0.0.1'' ''127.0.0.1'' 80 8001
                initial_state = (Inr sample_tunnel_args, provisioned_state)"
    by (rule sample_tunnel_args_result) (simp_all add: interrupted_world_def)
  have start: "tunnel_start interrupted_world (count_ev is_TunnelStart provisioned_state)
                 sample_tunnel_args = Inr (''127.0.0.1'', 8001)"
    by (simp add: interrupted_world_def fresh_world_def sample_tunnel_args_def)
  obtain p where p: "marathon_deploy_params sample_helper None = Inr p"
    using sample_params ..
  show ?thesis
    unfolding deploy_container_open [OF args start]
    apply (simp add: deploy_body_def p Let_def interrupted_world_def fresh_world_def py_in_def
             py_getitem_def)
    apply (subst poll.simps)
    apply (simp add: Let_def tunnel_error_handler_def provisioned_state_counts)
    done
qed

lemma fresh_world_run:
  "\<exists>s'. deploy_container fresh_world sample_helper None initial_state = Some (Inr (), s')"
proof -
  have args: "ssh_tunnel_args fresh_world sample_helper ''127.0.0.1'' ''127.0.0.1'' 80 8001
                initial_state = (Inr sample_tunnel_args, provisioned_state)"
    by (rule sample_tunnel_args_result) simp_all
  have start: "tunnel_start fresh_world (count_ev is_TunnelStart provisioned_state)
                 sample_tunnel_args = Inr (''127.0.0.1'', 8001)"
    by (simp add: fresh_world_def sample_tunnel_args_def)
  obtain params where params: "marathon_deploy_params sample_helper None = Inr params"
    using sample_params ..
  have post: "requests_post fresh_world i url body =
                Inr \<lparr>status_code = 201,
                     json_body = Inr (JDict [(''id'', JString ''/myapp''),
                                             (''deployments'',
                                              JList [JDict [(''id'', JString ''d1'')]])])\<rparr>"
    for i url body
    by (simp add: fresh_world_def)
  have poll: "\<exists>s'. poll fresh_world ''http://127.0.0.1:8001/marathon/v2/'' s = Some (Inr (), s')"
    if "count_ev is_Get s = 0" for s
    using sample_poll [of fresh_world s] that by simp
  show ?thesis
    unfolding deploy_container_open [OF args start]
    using poll [of "emit [TunnelStart sample_tunnel_args,
                   Print [PStr (''Attempting to deploy Docker image '' @ docker_tag sample_helper)],
                   Post ''http://127.0.0.1:8001/marathon/v2/apps'' (JDict params),
                   Print [PStr ''Deployment request successful.''],
                   Print [PStr ''Deployments: '', PJson (JList [JDict [(''id'', JString ''d1'')]])]]
                  provisioned_state"]
    by (auto simp: deploy_body_def params post Let_def py_in_def py_getitem_def str_nat.simps
          digit_char_def provisioned_state_counts)
qed

text \<open>
  Claim C3. Whenever the tunnel has been opened and \<^verbatim>\<open>deploy_container\<close> gives control
  back, by returning, by raising an exception of the submission or of the polling (an
  interrupt of the operator included), or through \<^verbatim>\<open>sys.exit\<close>, the trace after the
  opening of the tunnel consists of the calls made inside the \<^verbatim>\<open>with\<close> block, then
  exactly one stop of the tunnel, then what the \<^verbatim>\<open>except\<close> clause does: no request,
  no sleep and no further start or stop of a tunnel comes after the stop, and after a
  normal return nothing at all.
\<close>

theorem tunnel_stopped_on_every_exit:
  assumes "ssh_tunnel_args w h ''127.0.0.1'' ''127.0.0.1'' 80 8001 s = (Inr args, s1)"
    and "tunnel_start w (count_ev is_TunnelStart s1) args = Inr bound"
    and "deploy_container w h reg s = Some (r, s')"
  shows "\<exists>inside after.
           trace s' = trace s1 @ [TunnelStart args] @ inside @ [TunnelStop] @ after \<and>
           list_all (\<lambda>ev. is_Print ev \<or> is_Post ev \<or> is_Get ev \<or> is_Sleep ev) inside \<and>
           list_all (\<lambda>ev. \<not> is_TunnelStart ev \<and> \<not> is_TunnelStop ev \<and>
                           \<not> is_Post ev \<and> \<not> is_Get ev \<and> \<not> is_Sleep ev) after \<and>
           (r = Inr () \<longrightarrow> after = [])"
proof -
  note unfolded = deploy_container_open [OF assms(1,2), of reg]
  obtain rb s3 where body: "deploy_body w h reg bound (emit [TunnelStart args] s1) = Some (rb, s3)"
    using assms(3) unfolding unfolded by (auto split: option.splits)
  from deploy_body_emits [OF body] obtain inside where
    inside: "s3 = emit inside (emit [TunnelStart args] s1)"
      "list_all (\<lambda>ev. is_Print ev \<or> is_Post ev \<or> is_Get ev \<or> is_Sleep ev) inside"
    by auto
  show ?thesis
  proof (cases rb)
    case (Inr u)
    with assms(3) body have "s' = emit [TunnelStop] s3" "r = Inr u"
      unfolding unfolded by simp_all
    with inside show ?thesis
      by (intro exI [of _ inside] exI [of _ "[]"]) simp
  next
    case (Inl e)
    with assms(3) body
    have h: "tunnel_error_handler w h ''127.0.0.1'' 80 8001 e (emit [TunnelStop] s3) = (r, s')"
      unfolding unfolded by simp
    from tunnel_error_handler_raises [of w h "''127.0.0.1''" 80 8001 e "emit [TunnelStop] s3"] h
    have r: "r \<noteq> Inr ()" by auto
    from tunnel_error_handler_trace [of w h "''127.0.0.1''" 80 8001 e "emit [TunnelStop] s3"] h
    obtain after where
      after: "trace s' = trace (emit [TunnelStop] s3) @ after"
        "list_all (\<lambda>ev. \<not> is_TunnelStart ev \<and> \<not> is_TunnelStop ev \<and>
                         \<not> is_Post ev \<and> \<not> is_Get ev \<and> \<not> is_Sleep ev) after"
      by auto
    with inside r show ?thesis
      by (intro exI [of _ inside] exI [of _ after]) simp
  qed
qed

theorem tunnel_stopped_on_every_exit_witness:
  "(\<exists>s' inside after.
      deploy_container interrupted_world sample_helper None initial_state =
        Some (Inl KeyboardInterrupt, s') \<and>
      trace s' = trace provisioned_state @ [TunnelStart sample_tunnel_args] @ inside @
                 [TunnelStop] @ after \<and>
      list_all (\<lambda>ev. is_Print ev \<or> is_Post ev \<or> is_Get ev \<or> is_Sleep ev) inside \<and>
      list_all (\<lambda>ev. \<not> is_TunnelStart ev \<and> \<not> is_TunnelStop ev \<and>
                      \<not> is_Post ev \<and> \<not> is_Get ev \<and> \<not> is_Sleep ev) after) \<and>
   (\<exists>s' inside.
      deploy_container fresh_world sample_helper None initial_state = Some (Inr (), s') \<and>
      trace s' = trace provisioned_state @ [TunnelStart sample_tunnel_args] @ inside @
                 [TunnelStop] \<and>
      list_all (\<lambda>ev. is_Print ev \<or> is_Post ev \<or> is_Get ev \<or> is_Sleep ev) inside)"
proof -
  have args: "ssh_tunnel_args interrupted_world sample_helper ''127.0.0.1'' ''127.0.0.1'' 80 8001
                initial_state = (Inr sample_tunnel_args, provisioned_state)"
    by (rule sample_tunnel_args_result) (simp_all add: interrupted_world_def)
  have start: "tunnel_start interrupted_world (count_ev is_TunnelStart provisioned_state)
                 sample_tunnel_args = Inr (''127.0.0.1'', 8001)"
    by (simp add: interrupted_world_def fresh_world_def sample_tunnel_args_def)
  obtain s' where ret: "deploy_container interrupted_world sample_helper None initial_state =
                          Some (Inl KeyboardInterrupt, s')"
    using interrupted_world_run ..
  have args': "ssh_tunnel_args fresh_world sample_helper ''127.0.0.1'' ''127.0.0.1'' 80 8001
                initial_state = (Inr sample_tunnel_args, provisioned_state)"
    by (rule sample_tunnel_args_result) simp_all
  have start': "tunnel_start fresh_world (count_ev is_TunnelStart provisioned_state)
                 sample_tunnel_args = Inr (''127.0.0.1'', 8001)"
    by (simp add: fresh_world_def sample_tunnel_args_def)
  obtain s'' where ret': "deploy_container fresh_world sample_helper None initial_state =
                          Some (Inr (), s'')"
    using fresh_world_run ..
  have 1: "\<exists>s' inside after.
      deploy_container interrupted_world sample_helper None initial_state =
        Some (Inl KeyboardInterrupt, s') \<and>
      trace s' = trace provisioned_state @ [TunnelStart sample_tunnel_args] @ inside @
                 [TunnelStop] @ after \<and>
      list_all (\<lambda>ev. is_Print ev \<or> is_Post ev \<or> is_Get ev \<or> is_Sleep ev) inside \<and>
      list_all (\<lambda>ev. \<not> is_TunnelStart ev \<and> \<not> is_TunnelStop ev \<and>
                      \<not> is_Post ev \<and> \<not> is_Get ev \<and> \<not> is_Sleep ev) after"
    using tunnel_stopped_on_every_exit [OF args start ret] ret by blast
  from tunnel_stopped_on_every_exit [OF args' start' ret'] obtain inside where
    "trace s'' = trace provisioned_state @ [TunnelStart sample_tunnel_args] @ inside @
                 [TunnelStop] @ []"
    "list_all (\<lambda>ev. is_Print ev \<or> is_Post ev \<or> is_Get ev \<or> is_Sleep ev) inside"
    by blast
  then have 2: "\<exists>s' inside.
      deploy_container fresh_world sample_helper None initial_state = Some (Inr (), s') \<and>
      trace s' = trace provisioned_state @ [TunnelStart sample_tunnel_args] @ inside @
                 [TunnelStop] \<and>
      list_all (\<lambda>ev. is_Print ev \<or> is_Post ev \<or> is_Get ev \<or> is_Sleep ev) inside"
    using ret' by auto
  show ?thesis using 1 2 by blast
qed

lemma deploy_body_failed_post:
  assumes "marathon_deploy_params h reg = Inr params"
    and "base_url = ''http://'' @ fst bound @ '':'' @ str_nat (snd bound) @ ''/marathon/v2/''"
    and "requests_post w (count_ev is_Post s) (base_url @ ''apps'') (JDict params) = Inl e \<or>
         (\<exists>response. requests_post w (count_ev is_Post s) (base_url @ ''apps'') (JDict params) =
                        Inr response \<and>
                      json_body response = Inl e)"
  shows "deploy_body w h reg bound s =
           Some (Inl e,
                 emit [Print [PStr (''Attempting to deploy Docker image '' @ docker_tag h)],
                       Post (base_url @ ''apps'') (JDict params)] s)"
  unfolding deploy_body_def Let_def assms(2) [symmetric]
  using assms(3) by (auto simp: assms(1))

text \<open>
  Claim C6, as amended. When the \<^verbatim>\<open>POST\<close> of the deployment raises, or its answer has a
  body that \<^verbatim>\<open>response.json()\<close> cannot parse, \<^verbatim>\<open>deploy_container\<close> ends with an
  exception after that single \<^verbatim>\<open>POST\<close>: no second \<^verbatim>\<open>POST\<close>, no \<^verbatim>\<open>GET\<close> and no
  sleep. Unless the exception is the one the \<^verbatim>\<open>except\<close> clause catches, it reaches the
  caller unchanged, right after the tunnel is stopped. The status code of the answer
  plays no part.
\<close>

theorem failed_post_is_fatal:
  assumes "ssh_tunnel_args w h ''127.0.0.1'' ''127.0.0.1'' 80 8001 s = (Inr args, s1)"
    and "tunnel_start w (count_ev is_TunnelStart s1) args = Inr bound"
    and "marathon_deploy_params h reg = Inr params"
    and "base_url = ''http://'' @ fst bound @ '':'' @ str_nat (snd bound) @ ''/marathon/v2/''"
    and "requests_post w (count_ev is_Post s1) (base_url @ ''apps'') (JDict params) = Inl e \<or>
         (\<exists>response. requests_post w (count_ev is_Post s1) (base_url @ ''apps'') (JDict params) =
                        Inr response \<and>
                      json_body response = Inl e)"
  shows "\<exists>e' s'.
           deploy_container w h reg s = Some (Inl e', s') \<and>
           filter (\<lambda>ev. is_Post ev \<or> is_Get ev \<or> is_Sleep ev)
             (drop (length (trace s1)) (trace s')) = [Post (base_url @ ''apps'') (JDict params)] \<and>
           (e \<noteq> HandlerSSHTunnelForwarderError \<longrightarrow>
              e' = e \<and>
              s' = emit [TunnelStart args,
                         Print [PStr (''Attempting to deploy Docker image '' @ docker_tag h)],
                         Post (base_url @ ''apps'') (JDict params),
                         TunnelStop] s1)"
proof -
  let ?s3 = "emit [TunnelStart args,
                   Print [PStr (''Attempting to deploy Docker image '' @ docker_tag h)],
                   Post (base_url @ ''apps'') (JDict params)] s1"
  have post: "requests_post w (count_ev is_Post (emit [TunnelStart args] s1)) (base_url @ ''apps'')
                (JDict params) = Inl e \<or>
              (\<exists>response. requests_post w (count_ev is_Post (emit [TunnelStart args] s1))
                             (base_url @ ''apps'') (JDict params) = Inr response \<and>
                           json_body response = Inl e)"
    using assms(5) by simp
  have body: "deploy_body w h reg bound (emit [TunnelStart args] s1) = Some (Inl e, ?s3)"
    using deploy_body_failed_post [OF assms(3,4) post] by simp
  have dc: "deploy_container w h reg s =
              Some (tunnel_error_handler w h ''127.0.0.1'' 80 8001 e (emit [TunnelStop] ?s3))"
    unfolding deploy_container_open [OF assms(1,2)] body by simp
  let ?h = "tunnel_error_handler w h ''127.0.0.1'' 80 8001 e (emit [TunnelStop] ?s3)"
  from tunnel_error_handler_raises [of w h "''127.0.0.1''" 80 8001 e "emit [TunnelStop] ?s3"]
  obtain e' where e': "fst ?h = Inl e'" "e \<noteq> HandlerSSHTunnelForwarderError \<longrightarrow> e' = e"
    by blast
  from tunnel_error_handler_trace [of w h "''127.0.0.1''" 80 8001 e "emit [TunnelStop] ?s3"]
  obtain after where
    after: "trace (snd ?h) = trace (emit [TunnelStop] ?s3) @ after"
      "list_all (\<lambda>ev. \<not> is_TunnelStart ev \<and> \<not> is_TunnelStop ev \<and>
                       \<not> is_Post ev \<and> \<not> is_Get ev \<and> \<not> is_Sleep ev) after"
    by blast
  have quiet: "filter (\<lambda>ev. is_Post ev \<or> is_Get ev \<or> is_Sleep ev) after = []"
    using after(2) by (auto simp: filter_empty_conv list_all_iff)
  have 1: "deploy_container w h reg s = Some (Inl e', snd ?h)"
    using dc e'(1) by (cases ?h) simp
  have 2: "filter (\<lambda>ev. is_Post ev \<or> is_Get ev \<or> is_Sleep ev)
             (drop (length (trace s1)) (trace (snd ?h))) = [Post (base_url @ ''apps'') (JDict params)]"
    unfolding after(1) by (simp add: quiet)
  have 3: "e \<noteq> HandlerSSHTunnelForwarderError \<longrightarrow>
           e' = e \<and>
           snd ?h = emit [TunnelStart args,
                         Print [PStr (''Attempting to deploy Docker image '' @ docker_tag h)],
                         Post (base_url @ ''apps'') (JDict params),
                         TunnelStop] s1"
    using e'(2) by (simp add: tunnel_error_handler_def)
  show ?thesis
    using 1 2 3 by blast
qed

theorem failed_post_is_fatal_witness:
  "\<exists>params.
     marathon_deploy_params sample_helper None = Inr params \<and>
     deploy_container unreachable_world sample_helper None initial_state =
       Some (Inl (OtherError ''ConnectionError''),
             emit [TunnelStart sample_tunnel_args,
                   Print [PStr ''Attempting to deploy Docker image registry.example.com/myorg/myapp''],
                   Post ''http://127.0.0.1:8001/marathon/v2/apps'' (JDict params),
                   TunnelStop] provisioned_state) \<and>
     deploy_container garbled_world sample_helper None initial_state =
       Some (Inl ValueError,
             emit [TunnelStart sample_tunnel_args,
                   Print [PStr ''Attempting to deploy Docker image registry.example.com/myorg/myapp''],
                   Post ''http://127.0.0.1:8001/marathon/v2/apps'' (JDict params),
                   TunnelStop] provisioned_state)"
proof -
  obtain params where params: "marathon_deploy_params sample_helper None = Inr params"
    using sample_params ..
  have base: "''http://127.0.0.1:8001/marathon/v2/'' =
              ''http://'' @ fst (''127.0.0.1'', 8001 :: nat) @ '':'' @
              str_nat (snd (''127.0.0.1'', 8001 :: nat)) @ ''/marathon/v2/''"
    by (simp add: str_nat.simps digit_char_def)
  have tag: "docker_tag sample_helper = ''registry.example.com/myorg/myapp''"
    by (simp add: sample_helper_def)
  have args: "ssh_tunnel_args unreachable_world sample_helper ''127.0.0.1'' ''127.0.0.1'' 80 8001
                initial_state = (Inr sample_tunnel_args, provisioned_state)"
    by (rule sample_tunnel_args_result) (simp_all add: unreachable_world_def)
  have start: "tunnel_start unreachable_world (count_ev is_TunnelStart provisioned_state)
                 sample_tunnel_args = Inr (''127.0.0.1'', 8001)"
    by (simp add: unreachable_world_def fresh_world_def sample_tunnel_args_def)
  have post: "requests_post unreachable_world (count_ev is_Post provisioned_state)
                (''http://127.0.0.1:8001/marathon/v2/'' @ ''apps'') (JDict params) =
                Inl (OtherError ''ConnectionError'') \<or>
              (\<exists>response. requests_post unreachable_world (count_ev is_Post provisioned_state)
                  (''http://127.0.0.1:8001/marathon/v2/'' @ ''apps'') (JDict params) = Inr response \<and>
                json_body response = Inl (OtherError ''ConnectionError''))"
    by (simp add: unreachable_world_def)
  have args': "ssh_tunnel_args garbled_world sample_helper ''127.0.0.1'' ''127.0.0.1'' 80 8001
                initial_state = (Inr sample_tunnel_args, provisioned_state)"
    by (rule sample_tunnel_args_result) (simp_all add: garbled_world_def)
  have start': "tunnel_start garbled_world (count_ev is_TunnelStart provisioned_state)
                 sample_tunnel_args = Inr (''127.0.0.1'', 8001)"
    by (simp add: garbled_world_def fresh_world_def sample_tunnel_args_def)
  have post': "requests_post garbled_world (count_ev is_Post provisioned_state)
                (''http://127.0.0.1:8001/marathon/v2/'' @ ''apps'') (JDict params) = Inl ValueError \<or>
              (\<exists>response. requests_post garbled_world (count_ev is_Post provisioned_state)
                  (''http://127.0.0.1:8001/marathon/v2/'' @ ''apps'') (JDict params) = Inr response \<and>
                json_body response = Inl ValueError)"
    by (simp add: garbled_world_def)
  have 1: "deploy_container unreachable_world sample_helper None initial_state =
       Some (Inl (OtherError ''ConnectionError''),
             emit [TunnelStart sample_tunnel_args,
                   Print [PStr ''Attempting to deploy Docker image registry.example.com/myorg/myapp''],
                   Post ''http://127.0.0.1:8001/marathon/v2/apps'' (JDict params),
                   TunnelStop] provisioned_state)"
    using failed_post_is_fatal [OF args start params base post] by (auto simp: tag)
  have 2: "deploy_container garbled_world sample_helper None initial_state =
       Some (Inl ValueError,
             emit [TunnelStart sample_tunnel_args,
                   Print [PStr ''Attempting to deploy Docker image registry.example.com/myorg/myapp''],
                   Post ''http://127.0.0.1:8001/marathon/v2/apps'' (JDict params),
                   TunnelStop] provisioned_state)"
    using failed_post_is_fatal [OF args' start' params base post'] by (auto simp: tag)
  show ?thesis using params 1 2 by blast
qed

lemma rejecting_world_run:
  "\<exists>params.
     marathon_deploy_params sample_helper None = Inr params \<and>
     deploy_container rejecting_world sample_helper None initial_state =
       Some (Inr (),
             emit [TunnelStart sample_tunnel_args,
                   Print [PStr ''Attempting to deploy Docker image registry.example.com/myorg/myapp''],
                   Post ''http://127.0.0.1:8001/marathon/v2/apps'' (JDict params),
                   Print [PStr ''Deployment request successful.''],
                   Print [PJson (JDict [(''message'', JString ''Object is not valid'')])],
                   Print [PStr ''Making sure deployment finishes.''],
                   Print [PStr ''Initial simple-docker deploy should take about 30 seconds.''],
                   Get ''http://127.0.0.1:8001/marathon/v2/deployments'',
                   Print [PStr ''Waiting for deployment to finish...''],
                   Sleep 5,
                   Print [PStr ''Making sure deployment finishes.''],
                   Print [PStr ''Initial simple-docker deploy should take about 30 seconds.''],
                   Get ''http://127.0.0.1:8001/marathon/v2/deployments'',
                   Print [PStr ''Waiting for deployment to finish...''],
                   Sleep 5,
                   Print [PStr ''Making sure deployment finishes.''],
                   Print [PStr ''Initial simple-docker deploy should take about 30 seconds.''],
                   Get ''http://127.0.0.1:8001/marathon/v2/deployments'',
                   TunnelStop] provisioned_state)"
proof -
  have args: "ssh_tunnel_args rejecting_world sample_helper ''127.0.0.1'' ''127.0.0.1'' 80 8001
                initial_state = (Inr sample_tunnel_args, provisioned_state)"
    by (rule sample_tunnel_args_result) (simp_all add: rejecting_world_def)
  have start: "tunnel_start rejecting_world (count_ev is_TunnelStart provisioned_state)
                 sample_tunnel_args = Inr (''127.0.0.1'', 8001)"
    by (simp add: rejecting_world_def fresh_world_def sample_tunnel_args_def)
  obtain params where params: "marathon_deploy_params sample_helper None = Inr params"
    using sample_params ..
  have post: "requests_post rejecting_world i url body =
                Inr \<lparr>status_code = 422,
                     json_body = Inr (JDict [(''message'', JString ''Object is not valid'')])\<rparr>"
    for i url body
    by (simp add: rejecting_world_def)
  have tag: "docker_tag sample_helper = ''registry.example.com/myorg/myapp''"
    by (simp add: sample_helper_def)
  have poll: "poll rejecting_world ''http://127.0.0.1:8001/marathon/v2/'' s = 
           Some (Inr (),
                 emit [Print [PStr ''Making sure deployment finishes.''],
                       Print [PStr ''Initial simple-docker deploy should take about 30 seconds.''],
                       Get ''http://127.0.0.1:8001/marathon/v2/deployments'',
                       Print [PStr ''Waiting for deployment to finish...''],
                       Sleep 5,
                       Print [PStr ''Making sure deployment finishes.''],
                       Print [PStr ''Initial simple-docker deploy should take about 30 seconds.''],
                       Get ''http://127.0.0.1:8001/marathon/v2/deployments'',
                       Print [PStr ''Waiting for deployment to finish...''],
                       Sleep 5,
                       Print [PStr ''Making sure deployment finishes.''],
                       Print [PStr ''Initial simple-docker deploy should take about 30 seconds.''],
                       Get ''http://127.0.0.1:8001/marathon/v2/deployments''] s)"
    if "count_ev is_Get s = 0" for s
    using that by (intro sample_poll) (simp_all add: rejecting_world_def)
  show ?thesis
    unfolding deploy_container_open [OF args start]
    by (rule exI [of _ params])
       (simp add: deploy_body_def params post tag Let_def py_in_def str_nat.simps digit_char_def
          poll provisioned_state_counts)
qed

text \<open>
  Claim C6 as stated fails for an answer with a status outside 2xx and a JSON body.
  With status 422 and an error message as body, \<^verbatim>\<open>deploy_container\<close> prints the body,
  enters the polling loop, issues three \<^verbatim>\<open>GET\<close> requests and returns normally.
\<close>

theorem non_2xx_post_counterexample:
  "status_code (projr (requests_post rejecting_world 0 ''http://127.0.0.1:8001/marathon/v2/apps''
                         (JDict (projr (marathon_deploy_params sample_helper None))))) = 422 \<and>
   map_option fst (deploy_container rejecting_world sample_helper None initial_state) =
     Some (Inr ()) \<and>
   map_option (\<lambda>y. filter (\<lambda>ev. is_Post ev \<or> is_Get ev)
                      (drop (length (trace provisioned_state)) (trace (snd y))))
     (deploy_container rejecting_world sample_helper None initial_state) =
     Some [Post ''http://127.0.0.1:8001/marathon/v2/apps''
             (JDict (projr (marathon_deploy_params sample_helper None))),
           Get ''http://127.0.0.1:8001/marathon/v2/deployments'',
           Get ''http://127.0.0.1:8001/marathon/v2/deployments'',
           Get ''http://127.0.0.1:8001/marathon/v2/deployments'']"
proof -
  obtain params where params: "marathon_deploy_params sample_helper None = Inr params"
    using sample_params ..
  have 1: "status_code (projr (requests_post rejecting_world 0 url body)) = 422" for url body
    by (simp add: rejecting_world_def)
  from rejecting_world_run obtain p where
    p: "marathon_deploy_params sample_helper None = Inr p" and
    run: "deploy_container rejecting_world sample_helper None initial_state =
       Some (Inr (),
             emit [TunnelStart sample_tunnel_args,
                   Print [PStr ''Attempting to deploy Docker image registry.example.com/myorg/myapp''],
                   Post ''http://127.0.0.1:8001/marathon/v2/apps'' (JDict p),
                   Print [PStr ''Deployment request successful.''],
                   Print [PJson (JDict [(''message'', JString ''Object is not valid'')])],
                   Print [PStr ''Making sure deployment finishes.''],
                   Print [PStr ''Initial simple-docker deploy should take about 30 seconds.''],
                   Get ''http://127.0.0.1:8001/marathon/v2/deployments'',
                   Print [PStr ''Waiting for deployment to finish...''],
                   Sleep 5,
                   Print [PStr ''Making sure deployment finishes.''],
                   Print [PStr ''Initial simple-docker deploy should take about 30 seconds.''],
                   Get ''http://127.0.0.1:8001/marathon/v2/deployments'',
                   Print [PStr ''Waiting for deployment to finish...''],
                   Sleep 5,
                   Print [PStr ''Making sure deployment finishes.''],
                   Print [PStr ''Initial simple-docker deploy should take about 30 seconds.''],
                   Get ''http://127.0.0.1:8001/marathon/v2/deployments'',
                   TunnelStop] provisioned_state)"
    by blast
  show ?thesis
    unfolding run by (simp add: 1 p)
qed

text \<open>
  Claim C5, evaluated where the opening of the tunnel raises
  \<open>HandlerSSHTunnelForwarderError\<close>. The tunnel was attempted to port 2200 of the master
  as user \<open>acs\<close> with the key \<open>/home/op/.ssh/id_rsa\<close>. The advice printed names the
  local and remote host and port and the master's address, and neither the user, nor
  the port 2200, nor the key. The run ends in \<^verbatim>\<open>sys.exit(1)\<close> without any \<^verbatim>\<open>POST\<close> or
  \<^verbatim>\<open>GET\<close>.
\<close>

theorem tunnel_failure_advice:
  "deploy_container refused_tunnel_world sample_helper None initial_state =
     Some (Inl (SystemExit 1),
           emit [TunnelStart
                   \<lparr>ssh_address_or_host = (Some ''master.example.com'', 2200),
                    ssh_username = ''acs'',
                    remote_bind_address = (''127.0.0.1'', 80),
                    local_bind_address = (''127.0.0.1'', 8001),
                    ssh_pkey = ''/home/op/.ssh/id_rsa''\<rparr>,
                 PrintExc,
                 Print [PStr ''Opening SSH tunnel failed.''],
                 Print [PStr ''Please try the following command in a terminal:''],
                 Haikunate,
                 Print [PStr ''ssh -N -L 127.0.0.1:8001:127.0.0.1:80 master.example.com'']]
             provisioned_state)"
proof -
  have args: "ssh_tunnel_args refused_tunnel_world sample_helper ''127.0.0.1'' ''127.0.0.1'' 80 8001
                initial_state = (Inr sample_tunnel_args, provisioned_state)"
    by (rule sample_tunnel_args_result) (simp_all add: refused_tunnel_world_def)
  have start: "tunnel_start refused_tunnel_world i a = Inl HandlerSSHTunnelForwarderError" for i a
    by (simp add: refused_tunnel_world_def)
  have cached: "cached (emit evs provisioned_state) = Some sample_service" for evs
    by (simp add: provisioned_state_counts)
  have fqdn: "fqdn (master_profile sample_service) = Some ''master.example.com''"
    by (simp add: sample_service_def)
  show ?thesis
    by (simp add: deploy_container_def args start Let_def tunnel_error_handler_def
          master_ssh_address_def container_service_cached [OF cached] fqdn format_opt_def
          str_nat.simps digit_char_def sample_tunnel_args_def)
qed

end
